theory Spec2Isabelle
  imports Complex_Main
begin

section \<open>JavaScript values\<close>

text \<open>
  A JavaScript number is a double: not-a-number, an infinity, or a finite value, which is a
  rational. The comparisons of the code (\<open>days <= 0\<close>, \<open>value > 1e9\<close>) are exact on
  rationals, and every comparison with \<open>NaN\<close> is false.
\<close>

datatype jsnum = NaN | PosInf | NegInf | Fin rat

datatype jsval =
    JUndefined
  | JNull
  | JBool bool
  | JNum jsnum
  | JStr string
  | JArr "jsval list"
  | JObj "(string \<times> jsval) list"

fun isNaN :: "jsnum \<Rightarrow> bool" where
  "isNaN NaN = True"
| "isNaN _ = False"

text \<open>\<open>a <= b\<close> and \<open>a < b\<close> against a finite constant.\<close>

fun num_le :: "jsnum \<Rightarrow> rat \<Rightarrow> bool" where
  "num_le NaN c = False"
| "num_le PosInf c = False"
| "num_le NegInf c = True"
| "num_le (Fin r) c = (r \<le> c)"

fun num_lt :: "jsnum \<Rightarrow> rat \<Rightarrow> bool" where
  "num_lt NaN c = False"
| "num_lt PosInf c = False"
| "num_lt NegInf c = True"
| "num_lt (Fin r) c = (r < c)"

fun num_gt :: "jsnum \<Rightarrow> rat \<Rightarrow> bool" where
  "num_gt NaN c = False"
| "num_gt PosInf c = True"
| "num_gt NegInf c = False"
| "num_gt (Fin r) c = (c < r)"

fun Number_isInteger :: "jsnum \<Rightarrow> bool" where
  "Number_isInteger (Fin r) = (of_int \<lfloor>r\<rfloor> = r)"
| "Number_isInteger _ = False"

section \<open>Sync: the pull side\<close>

subsection \<open>Tables\<close>

text \<open>
  A JavaScript \<open>Date\<close> is a number of milliseconds since the epoch; a PostgreSQL
  \<open>timestamptz\<close> has microsecond resolution. Times of the server code are integers of
  milliseconds, stored times are integers of microseconds, and a \<open>Date\<close> bound into a
  query is the timestamp of the same instant.
\<close>

definition pg_of_date :: "int \<Rightarrow> int" where
  "pg_of_date d = 1000 * d"

text \<open>
  The columns every synced table has (\<open>Table.T\<close> of the models: the four timestamps and
  \<open>is_deleted\<close> are generated and not null, \<open>deleted_at\<close> is nullable); the columns
  of one entity extend the record.
\<close>

record sync_row =
  id_col :: string
  is_deleted :: bool
  created_at :: int
  updated_at :: int
  last_modified :: int
  server_created_at :: int
  deleted_at :: "int option"

text \<open>
  \<open>entity.Table.name\<close> and \<open>entity.Table.mobileName\<close> of a model. The list
  \<open>ENTITIES_TO_PUSH_TO_MOBILE\<close> names sixteen models, most of them defined in other
  modules, so the list is a parameter of the pull. Every table a query names exists.
\<close>

record entity =
  Table_name :: string
  Table_mobileName :: string

text \<open>\<open>DeltaData\<close>: the created and updated records, and the ids of the deleted ones.\<close>

record 'r DeltaData =
  created :: "'r list"
  updated :: "'r list"
  deleted :: "string list"

text \<open>
  The rows of \<open>user_clinic_permissions\<close> and \<open>app_config\<close> have \<open>created_at\<close> and
  \<open>updated_at\<close> (generated, not null) and neither \<open>last_modified\<close> nor
  \<open>server_created_at\<close>.
\<close>

record plain_row =
  key_col :: string
  plain_created_at :: int
  plain_updated_at :: int

record 'a database =
  tables :: "string \<Rightarrow> 'a sync_row_scheme list"
  user_clinic_permissions :: "plain_row list"
  app_config :: "plain_row list"

subsection \<open>getMaxHistoryDaysSync\<close>

text \<open>
  \<open>process.env.MAX_HISTORY_DAYS_SYNC\<close> is absent or a string; \<open>Number\<close> is the
  conversion of the language, taken as a parameter. An absent or empty value gives
  \<open>null\<close>; a value that is not a positive integer is reported and gives \<open>null\<close> too.
\<close>

definition getMaxHistoryDaysSync :: "(string \<Rightarrow> jsnum) \<Rightarrow> string option \<Rightarrow> int option" where
  "getMaxHistoryDaysSync Number envValue =
     (case envValue of
        None \<Rightarrow> None
      | Some s \<Rightarrow>
          if s = [] then None
          else (let days = Number s in
                if isNaN days \<or> num_le days 0 \<or> \<not> Number_isInteger days then None
                else (case days of Fin r \<Rightarrow> Some \<lfloor>r\<rfloor> | _ \<Rightarrow> None)))"

subsection \<open>getDeltaRecords\<close>

definition EXEMPT_FROM_HISTORY_LIMIT :: "string list" where
  "EXEMPT_FROM_HISTORY_LIMIT =
     [''clinics'', ''patient_registration_forms'', ''event_forms'', ''drug_catalogue'',
      ''clinic_departments'', ''clinic_inventory'']"

text \<open>
  \<open>effectiveLastSyncDate\<close>: the client's date, or the cutoff when a limit is set and the
  client's date is older.
\<close>

definition effectiveLastSyncDate :: "int option \<Rightarrow> int \<Rightarrow> int \<Rightarrow> int" where
  "effectiveLastSyncDate maxHistoryDays now clientLastSyncDate =
     (case maxHistoryDays of
        None \<Rightarrow> clientLastSyncDate
      | Some days \<Rightarrow>
          (let cutoffDate = now - days * 24 * 60 * 60 * 1000
           in if clientLastSyncDate < cutoffDate then cutoffDate else clientLastSyncDate))"

definition lastSyncDate :: "int option \<Rightarrow> int \<Rightarrow> int \<Rightarrow> string \<Rightarrow> int" where
  "lastSyncDate maxHistoryDays now clientLastSyncDate mobile_table_name =
     (let isExemptFromHistoryLimit = mobile_table_name \<in> set EXEMPT_FROM_HISTORY_LIMIT
      in if isExemptFromHistoryLimit then clientLastSyncDate
         else effectiveLastSyncDate maxHistoryDays now clientLastSyncDate)"

text \<open>The three queries of one entity.\<close>

definition newRecords :: "'a sync_row_scheme list \<Rightarrow> int \<Rightarrow> 'a sync_row_scheme list" where
  "newRecords rows d =
     filter (\<lambda>r. server_created_at r > pg_of_date d \<and> deleted_at r = None \<and> is_deleted r = False)
       rows"

definition updatedRecords :: "'a sync_row_scheme list \<Rightarrow> int \<Rightarrow> 'a sync_row_scheme list" where
  "updatedRecords rows d =
     filter (\<lambda>r. last_modified r > pg_of_date d \<and> server_created_at r < pg_of_date d
                \<and> deleted_at r = None \<and> is_deleted r = False) rows"

definition deletedRecords :: "int \<Rightarrow> 'a sync_row_scheme list \<Rightarrow> int \<Rightarrow> 'a sync_row_scheme list" where
  "deletedRecords lastSyncedAt rows d =
     (if lastSyncedAt = 0 then []
      else filter (\<lambda>r. (case deleted_at r of None \<Rightarrow> False | Some t \<Rightarrow> t > pg_of_date d)
                        \<and> is_deleted r = True) rows)"

text \<open>
  The body of the loop over \<open>ENTITIES_TO_PUSH_TO_MOBILE\<close> for one entity, and the two
  tables added after the loop, which are compared with the client's date itself. A record
  of the change set is a row of an entity's table or a row of one of these two tables.
\<close>

definition entityDelta ::
  "'a sync_row_scheme list \<Rightarrow> int \<Rightarrow> int \<Rightarrow> ('a sync_row_scheme + plain_row) DeltaData" where
  "entityDelta rows lastSyncedAt d =
     \<lparr>created = map Inl (newRecords rows d),
      updated = map Inl (updatedRecords rows d),
      deleted = map id_col (deletedRecords lastSyncedAt rows d)\<rparr>"

definition plainDelta :: "plain_row list \<Rightarrow> int \<Rightarrow> ('a sync_row_scheme + plain_row) DeltaData" where
  "plainDelta rows clientLastSyncDate =
     \<lparr>created = map Inr (filter (\<lambda>r. plain_created_at r > pg_of_date clientLastSyncDate) rows),
      updated = map Inr (filter (\<lambda>r. plain_created_at r < pg_of_date clientLastSyncDate
                                  \<and> plain_updated_at r > pg_of_date clientLastSyncDate) rows),
      deleted = []\<rparr>"

definition getDeltaRecords ::
  "(string \<Rightarrow> jsnum) \<Rightarrow> string option \<Rightarrow> int \<Rightarrow> entity list \<Rightarrow> 'a database \<Rightarrow> int
     \<Rightarrow> (string \<rightharpoonup> ('a sync_row_scheme + plain_row) DeltaData)" where
  "getDeltaRecords Number envValue now ENTITIES_TO_PUSH_TO_MOBILE db lastSyncedAt =
     (let clientLastSyncDate = lastSyncedAt;
          maxHistoryDays = getMaxHistoryDaysSync Number envValue;
          result = foldl (\<lambda>result entity.
                      result(Table_mobileName entity \<mapsto>
                        entityDelta (tables db (Table_name entity)) lastSyncedAt
                          (lastSyncDate maxHistoryDays now clientLastSyncDate
                             (Table_mobileName entity))))
                    Map.empty ENTITIES_TO_PUSH_TO_MOBILE;
          result = result(''user_clinic_permissions'' \<mapsto>
                      plainDelta (user_clinic_permissions db) clientLastSyncDate);
          result = result(''app_config'' \<mapsto> plainDelta (app_config db) clientLastSyncDate)
      in result)"

subsection \<open>Concrete inputs of the pull\<close>

text \<open>
  A \<open>Number\<close> that reads the setting \<open>"30"\<close>, two entities of the list (one of them
  exempt from the history limit), and small databases.
\<close>

definition Number_30 :: "string \<Rightarrow> jsnum" where
  "Number_30 s = (if s = ''30'' then Fin 30 else NaN)"

definition visits_entity :: entity where
  "visits_entity = \<lparr>Table_name = ''visits'', Table_mobileName = ''visits''\<rparr>"

definition clinics_entity :: entity where
  "clinics_entity = \<lparr>Table_name = ''clinics'', Table_mobileName = ''clinics''\<rparr>"

definition boundary_database :: "unit database" where
  "boundary_database =
     \<lparr>tables = (\<lambda>t. if t = ''visits''
                       then [\<lparr>id_col = ''v1'', is_deleted = False,
                              created_at = 1770647000000000, updated_at = 1770647099000000,
                              last_modified = 1770647099000000,
                              server_created_at = 1770647055887000, deleted_at = None\<rparr>]
                       else []),
      user_clinic_permissions = [], app_config = []\<rparr>"

definition deleted_database :: "unit database" where
  "deleted_database =
     \<lparr>tables = (\<lambda>t. if t = ''visits''
                       then [\<lparr>id_col = ''v2'', is_deleted = True,
                              created_at = 1770647000000000, updated_at = 1770647099000000,
                              last_modified = 1770647099000000,
                              server_created_at = 1770647055887000,
                              deleted_at = Some 1770647099000000\<rparr>]
                       else []),
      user_clinic_permissions = [], app_config = []\<rparr>"

text \<open>
  A database for the history window, with the clock at day 100: a visit and a clinic
  created on day 50 (the visit modified on day 90), and a visit created on day 80.
\<close>

definition visit_day50 :: sync_row where
  "visit_day50 =
     \<lparr>id_col = ''v50'', is_deleted = False, created_at = 4320000000000,
      updated_at = 7776000000000, last_modified = 7776000000000,
      server_created_at = 4320000000000, deleted_at = None\<rparr>"

definition visit_day80 :: sync_row where
  "visit_day80 =
     \<lparr>id_col = ''v80'', is_deleted = False, created_at = 6912000000000,
      updated_at = 6912000000000, last_modified = 6912000000000,
      server_created_at = 6912000000000, deleted_at = None\<rparr>"

definition clinic_day50 :: sync_row where
  "clinic_day50 =
     \<lparr>id_col = ''c50'', is_deleted = False, created_at = 4320000000000,
      updated_at = 4320000000000, last_modified = 4320000000000,
      server_created_at = 4320000000000, deleted_at = None\<rparr>"

definition window_database :: "unit database" where
  "window_database =
     \<lparr>tables = (\<lambda>t. if t = ''visits'' then [visit_day50, visit_day80]
                     else if t = ''clinics'' then [clinic_day50] else []),
      user_clinic_permissions = [], app_config = []\<rparr>"

section \<open>The audit log\<close>

subsection \<open>JSON text\<close>

text \<open>
  A JSON document, as \<open>params.changes\<close> and \<open>params.metadata\<close> are; the numbers of a
  document are integers here (a JavaScript number prints as its decimal digits below
  \<open>10^21\<close>). The members of an object are in the order in which JavaScript enumerates
  them.
\<close>

datatype json = Null | Bool bool | Num int | Str string | Arr "json list" | Obj "(string \<times> json) list"

text \<open>\<open>Array.prototype.join\<close>, and the decimal digits of an integer.\<close>

fun join :: "string \<Rightarrow> string list \<Rightarrow> string" where
  "join sep [] = []"
| "join sep [x] = x"
| "join sep (x # y # ys) = x @ sep @ join sep (y # ys)"

definition digit_char :: "nat \<Rightarrow> char" where
  "digit_char n = ''0123456789abcdef'' ! n"

fun string_of_nat :: "nat \<Rightarrow> string" where
  "string_of_nat n =
     (if n < 10 then [digit_char n] else string_of_nat (n div 10) @ [digit_char (n mod 10)])"

declare string_of_nat.simps [simp del]

definition string_of_int :: "int \<Rightarrow> string" where
  "string_of_int i = (if i < 0 then CHR ''-'' # string_of_nat (nat (- i)) else string_of_nat (nat i))"

text \<open>
  A string in JSON text: the quote, the backslash and the control characters are escaped,
  by \<open>JSON.stringify\<close> and by PostgreSQL's output of \<open>jsonb\<close> alike.
\<close>

definition escape_char :: "char \<Rightarrow> string" where
  "escape_char c =
     (if c = CHR 0x22 then [CHR 0x5C, CHR 0x22]
      else if c = CHR 0x5C then [CHR 0x5C, CHR 0x5C]
      else if c = CHR 0x08 then [CHR 0x5C, CHR ''b'']
      else if c = CHR 0x0C then [CHR 0x5C, CHR ''f'']
      else if c = CHR 0x0A then [CHR 0x5C, CHR ''n'']
      else if c = CHR 0x0D then [CHR 0x5C, CHR ''r'']
      else if c = CHR 0x09 then [CHR 0x5C, CHR ''t'']
      else if (of_char c :: nat) < 32
        then [CHR 0x5C, CHR ''u'', CHR ''0'', CHR ''0'', digit_char (of_char c div 16),
              digit_char (of_char c mod 16)]
      else [c])"

definition quote :: "string \<Rightarrow> string" where
  "quote s = [CHR 0x22] @ concat (map escape_char s) @ [CHR 0x22]"

text \<open>\<open>JSON.stringify\<close> with no indentation: no white space, members in enumeration order.\<close>

fun JSON_stringify :: "json \<Rightarrow> string" where
  "JSON_stringify Null = ''null''"
| "JSON_stringify (Bool b) = (if b then ''true'' else ''false'')"
| "JSON_stringify (Num n) = string_of_int n"
| "JSON_stringify (Str s) = quote s"
| "JSON_stringify (Arr xs) = ''['' @ join '','' (map JSON_stringify xs) @ '']''"
| "JSON_stringify (Obj kvs) =
     ''{'' @ join '','' (map (\<lambda>kv. quote (fst kv) @ '':'' @ JSON_stringify (snd kv)) kvs) @ ''}''"

text \<open>
  The type \<open>jsonb\<close> of PostgreSQL does not keep the text it was given: the keys of an
  object are stored once (the last value wins), ordered by length and then by their bytes,
  and the output has a space after every colon and every comma. \<open>jsonb_in\<close> is the value
  stored for a document (\<open>${changesStr}::jsonb\<close>), \<open>jsonb_out\<close> its text
  (\<open>changes::text\<close>).
\<close>

fun bytes_le :: "string \<Rightarrow> string \<Rightarrow> bool" where
  "bytes_le [] ys = True"
| "bytes_le (x # xs) [] = False"
| "bytes_le (x # xs) (y # ys) =
     ((of_char x :: nat) < of_char y \<or> (x = y \<and> bytes_le xs ys))"

definition key_le :: "string \<Rightarrow> string \<Rightarrow> bool" where
  "key_le a b = (length a < length b \<or> (length a = length b \<and> bytes_le a b))"

fun jsonb_put :: "string \<times> 'v \<Rightarrow> (string \<times> 'v) list \<Rightarrow> (string \<times> 'v) list" where
  "jsonb_put kv [] = [kv]"
| "jsonb_put kv (kv' # kvs) =
     (if fst kv = fst kv' then kv # kvs
      else if key_le (fst kv) (fst kv') then kv # kv' # kvs
      else kv' # jsonb_put kv kvs)"

fun jsonb_in :: "json \<Rightarrow> json" where
  "jsonb_in (Arr xs) = Arr (map jsonb_in xs)"
| "jsonb_in (Obj kvs) =
     Obj (foldl (\<lambda>acc kv. jsonb_put kv acc) [] (map (\<lambda>kv. (fst kv, jsonb_in (snd kv))) kvs))"
| "jsonb_in j = j"

fun jsonb_out :: "json \<Rightarrow> string" where
  "jsonb_out Null = ''null''"
| "jsonb_out (Bool b) = (if b then ''true'' else ''false'')"
| "jsonb_out (Num n) = string_of_int n"
| "jsonb_out (Str s) = quote s"
| "jsonb_out (Arr xs) = ''['' @ join '', '' (map jsonb_out xs) @ '']''"
| "jsonb_out (Obj kvs) =
     ''{'' @ join '', '' (map (\<lambda>kv. quote (fst kv) @ '': '' @ jsonb_out (snd kv)) kvs) @ ''}''"

subsection \<open>The table \<open>event_logs\<close> and its trigger\<close>

text \<open>
  The columns of the migration \<open>create_event_logs\<close>. The \<open>uuid\<close> columns hold the text
  PostgreSQL prints for them, \<open>ip_address\<close> the text of the address it was given, the
  \<open>jsonb\<close> columns the stored value. \<open>hash_verified\<close> is nullable with default
  \<open>false\<close>; every other column but \<open>ip_address\<close> and \<open>deleted_at\<close> is not null.
\<close>

record event_log_row = sync_row +
  transaction_id :: string
  action_type :: string
  table_name :: string
  row_id :: string
  changes :: json
  device_id :: string
  app_id :: string
  user_id :: string
  ip_address :: "string option"
  hash :: string
  hash_verified :: "bool option"
  metadata :: json

datatype tg_op = TG_INSERT | TG_UPDATE | TG_DELETE

datatype error =
    AppendOnly tg_op
  | UniqueViolation string
  | TypeError string
  | AdapterError string

text \<open>
  The trigger function: an \<open>UPDATE\<close> whose twelve compared columns are unchanged returns
  \<open>NEW\<close>; everything else raises \<open>event_logs is append-only\<close>. \<open>NEW\<close> is null
  for a \<open>DELETE\<close>.
\<close>

definition prevent_event_log_mutation ::
  "tg_op \<Rightarrow> event_log_row \<Rightarrow> event_log_row option \<Rightarrow> error + event_log_row" where
  "prevent_event_log_mutation TG_OP OLD NEW' =
     (case (TG_OP, NEW') of
        (TG_UPDATE, Some NEW) \<Rightarrow>
          if id_col NEW = id_col OLD \<and>
             transaction_id NEW = transaction_id OLD \<and>
             action_type NEW = action_type OLD \<and>
             table_name NEW = table_name OLD \<and>
             row_id NEW = row_id OLD \<and>
             changes NEW = changes OLD \<and>
             device_id NEW = device_id OLD \<and>
             app_id NEW = app_id OLD \<and>
             user_id NEW = user_id OLD \<and>
             hash NEW = hash OLD \<and>
             ip_address NEW = ip_address OLD \<and>
             created_at NEW = created_at OLD
          then Inr NEW
          else Inl (AppendOnly TG_OP)
      | _ \<Rightarrow> Inl (AppendOnly TG_OP))"

text \<open>
  The statements on the table run the trigger before each row they touch
  (\<open>trg_event_logs_no_update\<close>, \<open>trg_event_logs_no_delete\<close>); an exception aborts the
  statement. An \<open>INSERT\<close> fails on an id that exists, unless it says
  \<open>ON CONFLICT (id) DO NOTHING\<close>.
\<close>

fun update_event_logs ::
  "(event_log_row \<Rightarrow> bool) \<Rightarrow> (event_log_row \<Rightarrow> event_log_row) \<Rightarrow> event_log_row list
     \<Rightarrow> error + event_log_row list" where
  "update_event_logs wh st [] = Inr []"
| "update_event_logs wh st (r # rs) =
     (if wh r
      then (case prevent_event_log_mutation TG_UPDATE r (Some (st r)) of
              Inl e \<Rightarrow> Inl e
            | Inr n \<Rightarrow> (case update_event_logs wh st rs of
                          Inl e \<Rightarrow> Inl e
                        | Inr rs' \<Rightarrow> Inr (n # rs')))
      else (case update_event_logs wh st rs of
              Inl e \<Rightarrow> Inl e
            | Inr rs' \<Rightarrow> Inr (r # rs')))"

fun delete_event_logs ::
  "(event_log_row \<Rightarrow> bool) \<Rightarrow> event_log_row list \<Rightarrow> error + event_log_row list" where
  "delete_event_logs wh [] = Inr []"
| "delete_event_logs wh (r # rs) =
     (if wh r
      then (case prevent_event_log_mutation TG_DELETE r None of
              Inl e \<Rightarrow> Inl e
            | Inr n \<Rightarrow> delete_event_logs wh rs)
      else (case delete_event_logs wh rs of
              Inl e \<Rightarrow> Inl e
            | Inr rs' \<Rightarrow> Inr (r # rs')))"

definition insert_event_log :: "event_log_row list \<Rightarrow> event_log_row \<Rightarrow> error + event_log_row list" where
  "insert_event_log rows r =
     (if id_col r \<in> id_col ` set rows then Inl (UniqueViolation (id_col r)) else Inr (rows @ [r]))"


subsection \<open>computeHash, logEvent, logEvents\<close>

datatype ActionType = CREATE | UPDATE | SOFT_DELETE | PERMANENT_DELETE | VIEW | EXPORT

fun ActionType_string :: "ActionType \<Rightarrow> string" where
  "ActionType_string CREATE = ''CREATE''"
| "ActionType_string UPDATE = ''UPDATE''"
| "ActionType_string SOFT_DELETE = ''SOFT_DELETE''"
| "ActionType_string PERMANENT_DELETE = ''PERMANENT_DELETE''"
| "ActionType_string VIEW = ''VIEW''"
| "ActionType_string EXPORT = ''EXPORT''"

record LogEventParams =
  transactionId :: "string option"
  actionType :: ActionType
  tableName :: string
  rowId :: string
  params_changes :: json
  userId :: string
  params_metadata :: "json option"

record RequestContext =
  ipAddress :: "string option"
  deviceId :: string
  appId :: string

text \<open>
  \<open>computeHash\<close>: the eleven values joined with \<open>|\<close>, then SHA-256 in hexadecimal. The
  digest is a parameter; the arguments are the fields of \<open>data\<close> in the order of the
  payload.
\<close>

type_synonym uuid = string

definition computeHash_payload ::
  "uuid \<Rightarrow> uuid \<Rightarrow> string \<Rightarrow> string \<Rightarrow> string \<Rightarrow> string \<Rightarrow> string \<Rightarrow> string \<Rightarrow> string
     \<Rightarrow> string option \<Rightarrow> int \<Rightarrow> string" where
  "computeHash_payload id' transactionId' actionType' tableName' rowId' changes' deviceId' appId'
       userId' ipAddress' createdAt' =
     join ''|'' [id', transactionId', actionType', tableName', rowId', changes', deviceId', appId',
       userId', (case ipAddress' of None \<Rightarrow> [] | Some ip \<Rightarrow> ip), string_of_int createdAt']"

definition computeHash ::
  "(string \<Rightarrow> string) \<Rightarrow> uuid \<Rightarrow> uuid \<Rightarrow> string \<Rightarrow> string \<Rightarrow> string \<Rightarrow> string \<Rightarrow> string
     \<Rightarrow> string \<Rightarrow> string \<Rightarrow> string option \<Rightarrow> int \<Rightarrow> string" where
  "computeHash sha256 id' transactionId' actionType' tableName' rowId' changes' deviceId' appId'
       userId' ipAddress' createdAt' =
     sha256 (computeHash_payload id' transactionId' actionType' tableName' rowId' changes'
               deviceId' appId' userId' ipAddress' createdAt')"

text \<open>
  The row that \<open>logEvent\<close> and \<open>logEvents\<close> build for one event: \<open>id\<close> is the
  identifier drawn by \<open>uuidv7()\<close>, \<open>txId\<close> the transaction identifier used when the
  event has none, \<open>createdAt\<close> the value of \<open>Date.now()\<close>, \<open>now\<close> the clock of the
  database. The columns the statement does not name take their defaults:
  \<open>hash_verified\<close> is \<open>false\<close>, \<open>is_deleted\<close> is \<open>false\<close>, the three other
  timestamps are \<open>now()\<close>, \<open>deleted_at\<close> is null.
\<close>

definition logEvent_row ::
  "(string \<Rightarrow> string) \<Rightarrow> LogEventParams \<Rightarrow> RequestContext \<Rightarrow> string \<Rightarrow> string \<Rightarrow> int \<Rightarrow> int
     \<Rightarrow> event_log_row" where
  "logEvent_row sha256 params ctx id' txId createdAt now =
     (let transactionId' = (case transactionId params of Some t \<Rightarrow> t | None \<Rightarrow> txId);
          changesStr = JSON_stringify (params_changes params);
          hash' = computeHash sha256 id' transactionId' (ActionType_string (actionType params))
                    (tableName params) (rowId params) changesStr (deviceId ctx) (appId ctx)
                    (userId params) (ipAddress ctx) createdAt;
          metadataDoc = (case params_metadata params of Some m \<Rightarrow> m | None \<Rightarrow> Obj [])
      in \<lparr>id_col = id', is_deleted = False, created_at = pg_of_date createdAt, updated_at = now,
          last_modified = now, server_created_at = now, deleted_at = None,
          transaction_id = transactionId',
          action_type = ActionType_string (actionType params),
          table_name = tableName params,
          row_id = rowId params,
          changes = jsonb_in (params_changes params),
          device_id = deviceId ctx,
          app_id = appId ctx,
          user_id = userId params,
          ip_address = ipAddress ctx,
          hash = hash',
          hash_verified = Some False,
          metadata = jsonb_in metadataDoc\<rparr>)"

definition logEvent ::
  "(string \<Rightarrow> string) \<Rightarrow> event_log_row list \<Rightarrow> LogEventParams \<Rightarrow> RequestContext \<Rightarrow> string
     \<Rightarrow> string \<Rightarrow> int \<Rightarrow> int \<Rightarrow> error + event_log_row list" where
  "logEvent sha256 database params ctx id' txId createdAt now =
     insert_event_log database (logEvent_row sha256 params ctx id' txId createdAt now)"

text \<open>
  \<open>logEvents\<close>: one row per event, all with the same \<open>createdAt\<close> and, unless an
  event has its own, the same transaction identifier (\<open>sharedTransactionId\<close> or the one
  drawn); the rows are inserted by one statement. \<open>ids\<close> are the identifiers drawn, one
  per event.
\<close>

fun insert_event_logs :: "event_log_row list \<Rightarrow> event_log_row list \<Rightarrow> error + event_log_row list" where
  "insert_event_logs rows [] = Inr rows"
| "insert_event_logs rows (r # rs) =
     (case insert_event_log rows r of
        Inl e \<Rightarrow> Inl e
      | Inr rows' \<Rightarrow> insert_event_logs rows' rs)"

definition logEvents ::
  "(string \<Rightarrow> string) \<Rightarrow> event_log_row list \<Rightarrow> LogEventParams list \<Rightarrow> RequestContext
     \<Rightarrow> string option \<Rightarrow> uuid list \<Rightarrow> uuid \<Rightarrow> int \<Rightarrow> int \<Rightarrow> error + event_log_row list" where
  "logEvents sha256 database events ctx sharedTransactionId ids drawn createdAt now =
     (if length events = 0 then Inr database
      else (let txId = (case sharedTransactionId of Some t \<Rightarrow> t | None \<Rightarrow> drawn);
                rows = map (\<lambda>(params, id'). logEvent_row sha256 params ctx id' txId createdAt now)
                         (zip events ids)
            in case insert_event_logs database rows of
                 Inl e \<Rightarrow> Inl e
               | Inr database' \<Rightarrow> Inr database'))"

subsection \<open>verifyHashes\<close>

text \<open>
  \<open>(extract(epoch from created_at) * 1000)::bigint\<close>: the milliseconds of a timestamp,
  rounded to the nearest integer.
\<close>

definition epoch_millis :: "int \<Rightarrow> int" where
  "epoch_millis t = (if 0 \<le> t then (t + 500) div 1000 else - ((- t + 500) div 1000))"

text \<open>
  The string the query hashes for a row; \<open>inet_text\<close> is the text PostgreSQL gives for
  an \<open>inet\<close> value (\<open>ip_address::text\<close>), a parameter.
\<close>

definition verifyHashes_payload :: "(string \<Rightarrow> string) \<Rightarrow> event_log_row \<Rightarrow> string" where
  "verifyHashes_payload inet_text r =
     join ''|'' [id_col r, transaction_id r, action_type r, table_name r, row_id r,
       jsonb_out (changes r), device_id r, app_id r, user_id r,
       (case ip_address r of None \<Rightarrow> [] | Some ip \<Rightarrow> inet_text ip),
       string_of_int (epoch_millis (created_at r))]"

definition computed_hash :: "(string \<Rightarrow> string) \<Rightarrow> (string \<Rightarrow> string) \<Rightarrow> event_log_row \<Rightarrow> string" where
  "computed_hash sha256 inet_text r = sha256 (verifyHashes_payload inet_text r)"

record verifyHashes_result =
  verified :: int
  failed :: int

text \<open>
  The job: at most 10000 rows with \<open>hash_verified IS NULL\<close> get
  \<open>hash_verified = (hash = computed_hash)\<close>, and the rows updated are counted.
\<close>

definition verifyHashes ::
  "(string \<Rightarrow> string) \<Rightarrow> (string \<Rightarrow> string) \<Rightarrow> event_log_row list
     \<Rightarrow> error + (event_log_row list \<times> verifyHashes_result)" where
  "verifyHashes sha256 inet_text database =
     (let unverified = take 10000 (filter (\<lambda>r. hash_verified r = None) database);
          touched = (\<lambda>e. id_col e \<in> id_col ` set unverified);
          st = (\<lambda>e. e\<lparr>hash_verified := Some (hash e = computed_hash sha256 inet_text e)\<rparr>)
      in case update_event_logs touched st database of
           Inl e \<Rightarrow> Inl e
         | Inr database' \<Rightarrow>
             (let total = int (length (filter touched database));
                  failed' = int (length (filter (\<lambda>e. hash_verified (st e) = Some False)
                                           (filter touched database)))
              in Inr (database', \<lparr>verified = total - failed', failed = failed'\<rparr>)))"

subsection \<open>Concrete inputs of the audit log\<close>

text \<open>
  The call of the logging scenario: an \<open>UPDATE\<close> of the patient \<open>p1\<close> whose surname
  changes from Doe to Smith, by the user \<open>u1\<close>, from a request with no IP address; the
  two identifiers drawn, the value of \<open>Date.now()\<close> and the clock of the database.
\<close>

definition scenario_params :: LogEventParams where
  "scenario_params =
     \<lparr>transactionId = None, actionType = UPDATE, tableName = ''patients'', rowId = ''p1'',
      params_changes = Obj [(''surname'', Obj [(''old'', Str ''Doe''), (''new'', Str ''Smith'')])],
      userId = ''u1'', params_metadata = None\<rparr>"

definition scenario_ctx :: RequestContext where
  "scenario_ctx = \<lparr>ipAddress = None, deviceId = ''d1'', appId = ''web''\<rparr>"

definition scenario_row :: "(string \<Rightarrow> string) \<Rightarrow> event_log_row" where
  "scenario_row sha256 =
     logEvent_row sha256 scenario_params scenario_ctx ''019c42a1-7c4f-7000-8000-000000000001''
       ''019c42a1-7c4f-7000-8000-000000000002'' 1770647055887 1770647055900000"

text \<open>The twelve columns that the trigger compares.\<close>

definition audit_fields ::
  "event_log_row \<Rightarrow> uuid \<times> uuid \<times> string \<times> string \<times> string \<times> json \<times> string \<times> string \<times> string
     \<times> string \<times> string option \<times> int" where
  "audit_fields r =
     (id_col r, transaction_id r, action_type r, table_name r, row_id r, changes r, device_id r,
      app_id r, user_id r, hash r, ip_address r, created_at r)"

section \<open>Sync: the push side\<close>

subsection \<open>isEpochTimestamp and isDateColumn\<close>

text \<open>
  A string is a list of code units below 256; among them the white space that \<open>trim\<close>
  removes is the tab, the line terminators, the vertical tab, the form feed, the space and
  the no-break space. The regular expression \<open>/^\d{10,13}$/\<close> accepts ten to thirteen
  decimal digits and nothing else.
\<close>

definition isWhiteSpace :: "char \<Rightarrow> bool" where
  "isWhiteSpace c = ((of_char c :: nat) \<in> {9, 10, 11, 12, 13, 32, 160})"

definition trim :: "string \<Rightarrow> string" where
  "trim s = rev (dropWhile isWhiteSpace (rev (dropWhile isWhiteSpace s)))"

definition isDigit :: "char \<Rightarrow> bool" where
  "isDigit c = (48 \<le> (of_char c :: nat) \<and> (of_char c :: nat) \<le> 57)"

definition isEpochTimestamp :: "jsval \<Rightarrow> bool" where
  "isEpochTimestamp value =
     (case value of
        JStr s \<Rightarrow> (let t = trim s in 10 \<le> length t \<and> length t \<le> 13 \<and> list_all isDigit t)
      | JNum n \<Rightarrow> num_gt n 1000000000 \<and> num_lt n 100000000000000
      | _ \<Rightarrow> False)"

definition endsWith :: "string \<Rightarrow> string \<Rightarrow> bool" where
  "endsWith s suffix = (length suffix \<le> length s \<and> drop (length s - length suffix) s = suffix)"

definition isDateColumn :: "string \<Rightarrow> bool" where
  "isDateColumn name =
     (endsWith name ''_at'' \<or> endsWith name ''_date'' \<or> name = ''timestamp''
      \<or> name = ''last_modified'')"

subsection \<open>The models that accept pushes\<close>

text \<open>
  A record of a push is an object: its entries in enumeration order, the keys distinct.
  \<open>field\<close> reads a property, \<open>undefined\<close> when it is missing.
\<close>

type_synonym js_record = "(string \<times> jsval) list"

definition field :: "js_record \<Rightarrow> string \<Rightarrow> jsval" where
  "field record key = (case map_of record key of Some v \<Rightarrow> v | None \<Rightarrow> JUndefined)"

fun truthy :: "jsval \<Rightarrow> bool" where
  "truthy JUndefined = False"
| "truthy JNull = False"
| "truthy (JBool b) = b"
| "truthy (JNum n) = (n \<noteq> NaN \<and> n \<noteq> Fin 0)"
| "truthy (JStr s) = (s \<noteq> [])"
| "truthy (JArr xs) = True"
| "truthy (JObj kvs) = True"

text \<open>
  What \<open>persistClientChanges\<close> uses of a model: \<open>Table.name\<close>, the keys of
  \<open>Table.columns\<close>, \<open>Sync.upsertFromDelta\<close> and \<open>Sync.deleteFromDelta\<close>. The two
  calls take the state of the database and return it with the exception thrown, if any:
  what was written before an exception stays written. The list
  \<open>ENTITIES_TO_PULL_FROM_MOBILE\<close> names ten models, most of them defined in other
  modules, so the list is a parameter of the push.
\<close>

record 's model = entity +
  Table_columns :: "string list"
  Sync_upsertFromDelta :: "js_record \<Rightarrow> 's \<Rightarrow> 's \<times> error option"
  Sync_deleteFromDelta :: "string \<Rightarrow> 's \<Rightarrow> 's \<times> error option"

text \<open>
  \<open>pushTableNameModelMap\<close> is an object built from \<open>{}\<close>: reading a property gives the
  model stored last under that name, or what the object inherits from
  \<open>Object.prototype\<close> (a function or an object, truthy and without \<open>Table\<close>), or
  \<open>undefined\<close>.
\<close>

datatype 'a property = Own 'a | Inherited | Undefined

definition Object_prototype_properties :: "string list" where
  "Object_prototype_properties =
     [''constructor'', ''__defineGetter__'', ''__defineSetter__'', ''hasOwnProperty'',
      ''__lookupGetter__'', ''__lookupSetter__'', ''isPrototypeOf'', ''propertyIsEnumerable'',
      ''toString'', ''valueOf'', ''__proto__'', ''toLocaleString'']"

definition pushTableNameModelMap :: "'s model list \<Rightarrow> string \<Rightarrow> 's model property" where
  "pushTableNameModelMap ENTITIES_TO_PULL_FROM_MOBILE tableKey =
     (case map_of (rev (map (\<lambda>entity. (Table_name entity, entity)) ENTITIES_TO_PULL_FROM_MOBILE))
             tableKey of
        Some entity \<Rightarrow> Own entity
      | None \<Rightarrow> if tableKey \<in> set Object_prototype_properties then Inherited else Undefined)"

subsection \<open>persistClientChanges\<close>

text \<open>A loop of awaited calls: the first exception ends it.\<close>

fun for_each :: "('a \<Rightarrow> 's \<Rightarrow> 's \<times> error option) \<Rightarrow> 'a list \<Rightarrow> 's \<Rightarrow> 's \<times> error option" where
  "for_each f [] s = (s, None)"
| "for_each f (x # xs) s =
     (case f x s of
        (s', None) \<Rightarrow> for_each f xs s'
      | (s', Some e) \<Rightarrow> (s', Some e))"

text \<open>
  \<open>cleaned\<close>: the entries of the record with a known column as key; a value that looks
  like an epoch timestamp is replaced by \<open>toSafeDateString(value)\<close>, a \<open>0\<close> or
  \<open>"0"\<close> under a date column by null. \<open>toSafeDateString\<close> belongs to \<open>lib/utils\<close>
  and is a parameter.
\<close>

definition cleaned :: "(jsval \<Rightarrow> string) \<Rightarrow> string set \<Rightarrow> js_record \<Rightarrow> js_record" where
  "cleaned toSafeDateString knownColumns record =
     map (\<lambda>(key, value).
            if isEpochTimestamp value then (key, JStr (toSafeDateString value))
            else if (value = JNum (Fin 0) \<or> value = JStr ''0'') \<and> isDateColumn key then (key, JNull)
            else (key, value))
       (filter (\<lambda>(key, value). key \<in> knownColumns) record)"

text \<open>
  The body of the loop over the entries of the request, and the loop. A table that the map
  does not have is skipped; a name the map inherits passes the test, and reading
  \<open>.Table.columns\<close> of it throws a \<open>TypeError\<close>.
\<close>

definition persistTable ::
  "(jsval \<Rightarrow> string) \<Rightarrow> 's model list \<Rightarrow> string \<times> js_record DeltaData \<Rightarrow> 's \<Rightarrow> 's \<times> error option" where
  "persistTable toSafeDateString ENTITIES_TO_PULL_FROM_MOBILE entry s =
     (case entry of (tableKey, newDeltaJson) \<Rightarrow>
        (case pushTableNameModelMap ENTITIES_TO_PULL_FROM_MOBILE tableKey of
           Undefined \<Rightarrow> (s, None)
         | Inherited \<Rightarrow> (s, Some (TypeError ''Cannot read properties of undefined''))
         | Own m \<Rightarrow>
             (let knownColumns = set (Table_columns m)
              in case for_each
                        (\<lambda>record. Sync_upsertFromDelta m (cleaned toSafeDateString knownColumns record))
                        (created newDeltaJson @ updated newDeltaJson) s of
                   (s', Some e) \<Rightarrow> (s', Some e)
                 | (s', None) \<Rightarrow> for_each (Sync_deleteFromDelta m) (deleted newDeltaJson) s')))"

definition persistClientChanges ::
  "(jsval \<Rightarrow> string) \<Rightarrow> 's model list \<Rightarrow> (string \<times> js_record DeltaData) list \<Rightarrow> 's
     \<Rightarrow> 's \<times> error option" where
  "persistClientChanges toSafeDateString ENTITIES_TO_PULL_FROM_MOBILE data s =
     for_each (persistTable toSafeDateString ENTITIES_TO_PULL_FROM_MOBILE) data s"

subsection \<open>The model Visit\<close>

text \<open>
  The rows of the tables the push writes: the sync columns, and the other columns by
  name. The constraints of these tables are declared in earlier migrations; the model
  has the primary key \<open>id\<close>, which the statements name, and no other constraint.
\<close>

record entity_row = sync_row +
  cols :: js_record

type_synonym server_db = "unit entity_row_ext database"

definition Visit_columns :: "string list" where
  "Visit_columns =
     [''id'', ''patient_id'', ''clinic_id'', ''provider_id'', ''provider_name'',
      ''check_in_timestamp'', ''metadata'', ''is_deleted'', ''created_at'', ''updated_at'',
      ''last_modified'', ''server_created_at'', ''deleted_at'']"

text \<open>
  The values of the \<open>INSERT\<close> of \<open>upsert_core\<close>. \<open>toSafeDateString\<close> and
  \<open>safeJSONParse\<close> are parameters, as is \<open>timestamptz\<close>, the timestamp PostgreSQL reads
  from a date string; \<open>toSafeDateString\<close> takes the clock, which it returns for a value
  it cannot read. \<open>now\<close> is the clock, in milliseconds, constant during one call. A
  boolean column is true when the value bound is \<open>true\<close>.
\<close>

definition Visit_values ::
  "(int \<Rightarrow> jsval \<Rightarrow> string) \<Rightarrow> (jsval \<Rightarrow> jsval \<Rightarrow> jsval) \<Rightarrow> (string \<Rightarrow> int) \<Rightarrow> int \<Rightarrow> js_record
     \<Rightarrow> string \<Rightarrow> entity_row" where
  "Visit_values toSafeDateString safeJSONParse timestamptz now visit id' =
     \<lparr>id_col = id',
      is_deleted = (field visit ''is_deleted'' = JBool True),
      created_at = timestamptz (toSafeDateString now (field visit ''created_at'')),
      updated_at = timestamptz (toSafeDateString now (field visit ''updated_at'')),
      last_modified = pg_of_date now,
      server_created_at = pg_of_date now,
      deleted_at = None,
      cols = [(''patient_id'', field visit ''patient_id''),
              (''clinic_id'', field visit ''clinic_id''),
              (''provider_id'', field visit ''provider_id''),
              (''provider_name'', field visit ''provider_name''),
              (''check_in_timestamp'',
                 if truthy (field visit ''check_in_timestamp'')
                 then JStr (toSafeDateString now (field visit ''check_in_timestamp''))
                 else JNull),
              (''metadata'', safeJSONParse (field visit ''metadata'') (JObj []))]\<rparr>"

text \<open>
  \<open>upsert_core\<close>: the row is inserted, or on a conflict on \<open>id\<close> the existing row
  takes the new values of the listed columns and the clock in \<open>updated_at\<close> and
  \<open>last_modified\<close>. A record with no string as \<open>id\<close> makes the statement fail.
\<close>

definition Visit_upsert_core ::
  "(int \<Rightarrow> jsval \<Rightarrow> string) \<Rightarrow> (jsval \<Rightarrow> jsval \<Rightarrow> jsval) \<Rightarrow> (string \<Rightarrow> int) \<Rightarrow> int \<Rightarrow> js_record
     \<Rightarrow> server_db \<Rightarrow> server_db \<times> error option" where
  "Visit_upsert_core toSafeDateString safeJSONParse timestamptz now visit db =
     (case field visit ''id'' of
        JStr id' \<Rightarrow>
          (let v = Visit_values toSafeDateString safeJSONParse timestamptz now visit id';
               rows = tables db ''visits''
           in if id' \<in> id_col ` set rows
              then (db\<lparr>tables := (tables db)(''visits'' :=
                       map (\<lambda>r. if id_col r = id'
                                then r\<lparr>cols := cols v, is_deleted := is_deleted v,
                                       updated_at := pg_of_date now,
                                       last_modified := pg_of_date now\<rparr>
                                else r) rows)\<rparr>, None)
              else (db\<lparr>tables := (tables db)(''visits'' := rows @ [v])\<rparr>, None))
      | _ \<Rightarrow> (db, Some (AdapterError ''visits.id'')))"

text \<open>
  \<open>softDelete\<close>: one transaction marks the visit and, in \<open>prescriptions\<close>,
  \<open>events\<close> and \<open>appointments\<close>, the rows that refer to it.
\<close>

definition mark_deleted :: "int \<Rightarrow> (entity_row \<Rightarrow> bool) \<Rightarrow> entity_row list \<Rightarrow> entity_row list" where
  "mark_deleted now wh rows =
     map (\<lambda>r. if wh r
              then r\<lparr>is_deleted := True, updated_at := pg_of_date now,
                     last_modified := pg_of_date now\<rparr>
              else r) rows"

definition Visit_softDelete :: "int \<Rightarrow> string \<Rightarrow> server_db \<Rightarrow> server_db \<times> error option" where
  "Visit_softDelete now id' db =
     (db\<lparr>tables := (\<lambda>t.
          if t = ''visits'' then mark_deleted now (\<lambda>r. id_col r = id') (tables db t)
          else if t = ''prescriptions''
            then mark_deleted now (\<lambda>r. field (cols r) ''visit_id'' = JStr id') (tables db t)
          else if t = ''events''
            then mark_deleted now (\<lambda>r. field (cols r) ''visit_id'' = JStr id') (tables db t)
          else if t = ''appointments''
            then mark_deleted now (\<lambda>r. field (cols r) ''current_visit_id'' = JStr id') (tables db t)
          else tables db t)\<rparr>, None)"

definition Visit ::
  "(int \<Rightarrow> jsval \<Rightarrow> string) \<Rightarrow> (jsval \<Rightarrow> jsval \<Rightarrow> jsval) \<Rightarrow> (string \<Rightarrow> int) \<Rightarrow> int \<Rightarrow> server_db model" where
  "Visit toSafeDateString safeJSONParse timestamptz now =
     \<lparr>Table_name = ''visits'', Table_mobileName = ''visits'',
      Table_columns = Visit_columns,
      Sync_upsertFromDelta = Visit_upsert_core toSafeDateString safeJSONParse timestamptz now,
      Sync_deleteFromDelta = Visit_softDelete now\<rparr>"

subsection \<open>EventLog.API.insertFromSync\<close>



subsection \<open>The date strings\<close>

text \<open>
  \<open>Date.prototype.toISOString\<close> for the years 0 to 9999: the civil date of a number of
  days since the epoch, and the twenty-four characters \<open>YYYY-MM-DDTHH:mm:ss.sssZ\<close>.
\<close>

definition day_of_era :: "int \<Rightarrow> int" where
  "day_of_era z = (z + 719468) mod 146097"

definition year_of_era :: "int \<Rightarrow> int" where
  "year_of_era z =
     (day_of_era z - day_of_era z div 1460 + day_of_era z div 36524 - day_of_era z div 146096)
       div 365"

definition day_of_year :: "int \<Rightarrow> int" where
  "day_of_year z =
     day_of_era z - (365 * year_of_era z + year_of_era z div 4 - year_of_era z div 100)"

definition civil_month :: "int \<Rightarrow> int" where
  "civil_month z =
     (if (5 * day_of_year z + 2) div 153 < 10 then (5 * day_of_year z + 2) div 153 + 3
      else (5 * day_of_year z + 2) div 153 - 9)"

definition civil_day :: "int \<Rightarrow> int" where
  "civil_day z = day_of_year z - (153 * ((5 * day_of_year z + 2) div 153) + 2) div 5 + 1"

definition civil_year :: "int \<Rightarrow> int" where
  "civil_year z =
     year_of_era z + ((z + 719468) div 146097) * 400 + (if civil_month z \<le> 2 then 1 else 0)"

definition pad2 :: "int \<Rightarrow> string" where
  "pad2 n = (if n < 10 then ''0'' @ string_of_int n else string_of_int n)"

definition pad3 :: "int \<Rightarrow> string" where
  "pad3 n = (if n < 10 then ''00'' @ string_of_int n
             else if n < 100 then ''0'' @ string_of_int n else string_of_int n)"

definition pad4 :: "int \<Rightarrow> string" where
  "pad4 n = (if n < 10 then ''000'' @ string_of_int n
             else if n < 100 then ''00'' @ string_of_int n
             else if n < 1000 then ''0'' @ string_of_int n else string_of_int n)"

definition toISOString :: "int \<Rightarrow> string" where
  "toISOString ms =
     pad4 (civil_year (ms div 86400000)) @ ''-'' @ pad2 (civil_month (ms div 86400000)) @ ''-''
       @ pad2 (civil_day (ms div 86400000)) @ ''T'' @ pad2 (ms mod 86400000 div 3600000) @ '':''
       @ pad2 (ms mod 86400000 div 60000 mod 60) @ '':'' @ pad2 (ms mod 86400000 div 1000 mod 60)
       @ ''.'' @ pad3 (ms mod 1000) @ ''Z''"

definition year_of :: "int \<Rightarrow> int" where
  "year_of ms = civil_year (ms div 86400000)"

text \<open>
  The inverse on strings of that form: the number of days of a civil date, and the
  milliseconds of a date string (none for a string of another form).
\<close>

definition days_from_civil :: "int \<Rightarrow> int \<Rightarrow> int \<Rightarrow> int" where
  "days_from_civil y m d =
     (if m \<le> 2 then y - 1 else y) div 400 * 146097
     + ((if m \<le> 2 then y - 1 else y) mod 400 * 365
        + (if m \<le> 2 then y - 1 else y) mod 400 div 4
        - (if m \<le> 2 then y - 1 else y) mod 400 div 100
        + ((153 * (if m > 2 then m - 3 else m + 9) + 2) div 5 + d - 1))
     - 719468"

definition digits_value :: "string \<Rightarrow> int" where
  "digits_value s = foldl (\<lambda>n c. 10 * n + (int (of_char c) - 48)) 0 s"

definition iso_shape :: "string \<Rightarrow> bool" where
  "iso_shape s =
     (length s = 24 \<and> map (\<lambda>i. s ! i) [4, 7, 10, 13, 16, 19, 23] = ''--T::.Z''
      \<and> list_all isDigit
            (map (\<lambda>i. s ! i) [0, 1, 2, 3, 5, 6, 8, 9, 11, 12, 14, 15, 17, 18, 20, 21, 22])
      \<and> 1 \<le> digits_value (take 2 (drop 5 s)) \<and> digits_value (take 2 (drop 5 s)) \<le> 12
      \<and> 1 \<le> digits_value (take 2 (drop 8 s)) \<and> digits_value (take 2 (drop 8 s)) \<le> 31
      \<and> digits_value (take 2 (drop 11 s)) \<le> 23 \<and> digits_value (take 2 (drop 14 s)) \<le> 59
      \<and> digits_value (take 2 (drop 17 s)) \<le> 59)"

definition parse_iso :: "string \<Rightarrow> int option" where
  "parse_iso s =
     (if iso_shape s
      then Some (days_from_civil (digits_value (take 4 s)) (digits_value (take 2 (drop 5 s)))
                   (digits_value (take 2 (drop 8 s))) * 86400000
                 + digits_value (take 2 (drop 11 s)) * 3600000
                 + digits_value (take 2 (drop 14 s)) * 60000
                 + digits_value (take 2 (drop 17 s)) * 1000
                 + digits_value (take 3 (drop 20 s)))
      else None)"

text \<open>
  Modelled from the spec: \<open>toSafeDateString\<close> of \<open>lib/utils\<close>, a module known here by
  its tests only. The spec has it return a normalized date of the same instant; the
  tests of \<open>lib/utils\<close> read a number below \<open>1e12\<close> as seconds and any other as
  milliseconds, read a string of digits like the number, leave a valid ISO string as it is,
  and expect the current time for null, for a value that cannot be read and for a year
  outside 1850 to 2120. Among the strings that are not digits, the model reads the form
  that \<open>toISOString\<close> prints.
\<close>

definition safe_year :: "int \<Rightarrow> bool" where
  "safe_year ms = (1850 \<le> year_of ms \<and> year_of ms \<le> 2120)"

definition epoch_millis_of :: "int \<Rightarrow> int" where
  "epoch_millis_of n = (if n < 1000000000000 then n * 1000 else n)"

definition epoch_date :: "int \<Rightarrow> int \<Rightarrow> string" where
  "epoch_date now n =
     (if safe_year (epoch_millis_of n) then toISOString (epoch_millis_of n) else toISOString now)"

definition toSafeDateString_model :: "int \<Rightarrow> jsval \<Rightarrow> string" where
  "toSafeDateString_model now value =
     (case value of
        JNum (Fin r) \<Rightarrow> if of_int \<lfloor>r\<rfloor> = r then epoch_date now \<lfloor>r\<rfloor> else toISOString now
      | JStr s \<Rightarrow>
          if s \<noteq> [] \<and> list_all isDigit s then epoch_date now (digits_value s)
          else (case parse_iso s of
                  Some ms \<Rightarrow> if safe_year ms then s else toISOString now
                | None \<Rightarrow> toISOString now)
      | _ \<Rightarrow> toISOString now)"

text \<open>
  Modelled from the spec: \<open>safeJSONParse\<close> of \<open>lib/utils\<close>, a module known here by
  its tests only; by its tests it returns an object or array it is given and the default
  for null and undefined. (It parses a string; the model gives the default for one.)
\<close>

definition safeJSONParse_model :: "jsval \<Rightarrow> jsval \<Rightarrow> jsval" where
  "safeJSONParse_model value defaultValue =
     (case value of JObj kvs \<Rightarrow> value | JArr xs \<Rightarrow> value | _ \<Rightarrow> defaultValue)"

text \<open>The timestamp PostgreSQL reads from a date string of the form above.\<close>

definition timestamptz_model :: "string \<Rightarrow> int" where
  "timestamptz_model s = (case parse_iso s of Some ms \<Rightarrow> pg_of_date ms | None \<Rightarrow> 0)"

subsection \<open>Concrete inputs of the push\<close>

text \<open>The keys of \<open>PatientProblem.Table.columns\<close>.\<close>

definition PatientProblem_columns :: "string list" where
  "PatientProblem_columns =
     [''id'', ''patient_id'', ''visit_id'', ''problem_code_system'', ''problem_code'',
      ''problem_label'', ''clinical_status'', ''verification_status'', ''severity_score'',
      ''onset_date'', ''end_date'', ''recorded_by_user_id'', ''metadata'', ''is_deleted'',
      ''created_at'', ''updated_at'', ''last_modified'', ''server_created_at'', ''deleted_at'']"

text \<open>
  The model PatientProblem, as far as the push reads it: the two adapters are parameters.
\<close>

definition PatientProblem ::
  "(js_record \<Rightarrow> 's \<Rightarrow> 's \<times> error option) \<Rightarrow> (string \<Rightarrow> 's \<Rightarrow> 's \<times> error option) \<Rightarrow> 's model" where
  "PatientProblem upsertFromDelta deleteFromDelta =
     \<lparr>Table_name = ''patient_problems'', Table_mobileName = ''patient_problems'',
      Table_columns = PatientProblem_columns,
      Sync_upsertFromDelta = upsertFromDelta, Sync_deleteFromDelta = deleteFromDelta\<rparr>"

text \<open>
  A pushed problem record whose code is a string of ten digits, with a bookkeeping field of
  the client; a pushed visit; a database with no rows; the model Visit at a clock.
\<close>

definition problem_record :: js_record where
  "problem_record =
     [(''id'', JStr ''pp1''), (''problem_code'', JStr ''1003755004''),
      (''onset_date'', JNum (Fin 0)), (''_status'', JStr ''created'')]"

definition visit_record :: js_record where
  "visit_record =
     [(''id'', JStr ''v1''), (''patient_id'', JStr ''p1''), (''clinic_id'', JStr ''c1''),
      (''provider_id'', JStr ''u1''), (''provider_name'', JStr ''Dr A''),
      (''check_in_timestamp'', JStr ''2026-02-09T14:24:15.887Z''), (''metadata'', JObj []),
      (''is_deleted'', JBool False), (''created_at'', JNum (Fin 1770647055887)),
      (''updated_at'', JNum (Fin 1770647055887)), (''_status'', JStr ''created'')]"

definition visit_push :: "(string \<times> js_record DeltaData) list" where
  "visit_push = [(''visits'', \<lparr>created = [visit_record], updated = [], deleted = []\<rparr>)]"


definition empty_server_db :: server_db where
  "empty_server_db = \<lparr>tables = (\<lambda>t. []), user_clinic_permissions = [], app_config = []\<rparr>"

definition Visit_at :: "int \<Rightarrow> server_db model" where
  "Visit_at now = Visit toSafeDateString_model safeJSONParse_model timestamptz_model now"

definition push_at :: "int \<Rightarrow> (string \<times> js_record DeltaData) list \<Rightarrow> server_db \<Rightarrow> server_db \<times> error option" where
  "push_at now data db = persistClientChanges (toSafeDateString_model now) [Visit_at now] data db"

text \<open>A database without the two columns that every write stamps with the clock.\<close>

definition unstamped :: "server_db \<Rightarrow> server_db" where
  "unstamped db =
     db\<lparr>tables := (\<lambda>t. map (\<lambda>r. r\<lparr>updated_at := 0, last_modified := 0\<rparr>) (tables db t))\<rparr>"


text \<open>The visit record once cleaned: its two epoch values are date strings.\<close>

definition clean_visit_record :: js_record where
  "clean_visit_record =
     [(''id'', JStr ''v1''), (''patient_id'', JStr ''p1''), (''clinic_id'', JStr ''c1''),
      (''provider_id'', JStr ''u1''), (''provider_name'', JStr ''Dr A''),
      (''check_in_timestamp'', JStr ''2026-02-09T14:24:15.887Z''), (''metadata'', JObj []),
      (''is_deleted'', JBool False), (''created_at'', JStr ''2026-02-09T14:24:15.887Z''),
      (''updated_at'', JStr ''2026-02-09T14:24:15.887Z'')]"

subsection \<open>The writes of a push to the table visits\<close>

text \<open>
  For the proofs about a retried push: the calls a push to \<open>visits\<close> makes, as a list
  of operations, and their effect row by row. \<open>vals\<close> stands for the values of the
  \<open>INSERT\<close> of \<open>upsert_core\<close> at the clock of the run, \<open>stamp\<close> for that clock as
  a timestamp.
\<close>

datatype push_op = Upsert js_record | Delete string


definition refers :: "string \<Rightarrow> string \<Rightarrow> entity_row \<Rightarrow> bool" where
  "refers tb i x =
     ((tb = ''prescriptions'' \<and> field (cols x) ''visit_id'' = JStr i)
      \<or> (tb = ''events'' \<and> field (cols x) ''visit_id'' = JStr i)
      \<or> (tb = ''appointments'' \<and> field (cols x) ''current_visit_id'' = JStr i))"

definition rowfun ::
  "(js_record \<Rightarrow> string \<Rightarrow> entity_row) \<Rightarrow> int \<Rightarrow> push_op \<Rightarrow> string \<Rightarrow> entity_row \<Rightarrow> entity_row" where
  "rowfun vals stamp op tb x =
     (case op of
        Upsert r \<Rightarrow>
          (case field r ''id'' of
             JStr i \<Rightarrow>
               if tb = ''visits'' \<and> id_col x = i
               then x\<lparr>cols := cols (vals r i), is_deleted := is_deleted (vals r i),
                      updated_at := stamp, last_modified := stamp\<rparr>
               else x
           | _ \<Rightarrow> x)
      | Delete i \<Rightarrow>
          if (tb = ''visits'' \<and> id_col x = i) \<or> refers tb i x
          then x\<lparr>is_deleted := True, updated_at := stamp, last_modified := stamp\<rparr>
          else x)"







text \<open>What the operations of a list do, one after the other, to one row of a table.\<close>

definition row_ops ::
  "(js_record \<Rightarrow> string \<Rightarrow> entity_row) \<Rightarrow> int \<Rightarrow> push_op list \<Rightarrow> string \<Rightarrow> entity_row \<Rightarrow> entity_row" where
  "row_ops vals stamp ops tb x = foldl (\<lambda>y op. rowfun vals stamp op tb y) x ops"



section \<open>Properties of the pull\<close>

lemma foldl_upd_other:
  "k \<notin> f ` set xs \<Longrightarrow> foldl (\<lambda>m e. m(f e \<mapsto> g e)) m0 xs k = m0 k"
  by (induction xs arbitrary: m0) auto

lemma foldl_upd_lookup:
  "distinct (map f xs) \<Longrightarrow> x \<in> set xs \<Longrightarrow>
     foldl (\<lambda>m e. m(f e \<mapsto> g e)) m0 xs (f x) = Some (g x)"
proof (induction xs arbitrary: m0)
  case Nil
  then show ?case by simp
next
  case (Cons a xs)
  show ?case
  proof (cases "x = a")
    case True
    with Cons.prems have "f a \<notin> f ` set xs" by auto
    from foldl_upd_other [OF this, of g "m0(f a \<mapsto> g a)"]
    show ?thesis unfolding True by (simp only: foldl_Cons fun_upd_same)
  next
    case False
    with Cons show ?thesis by auto
  qed
qed

lemma foldl_upd_pred:
  "(\<And>k v. m0 k = Some v \<Longrightarrow> P v) \<Longrightarrow> (\<And>e. e \<in> set xs \<Longrightarrow> P (g e)) \<Longrightarrow>
     foldl (\<lambda>m e. m(f e \<mapsto> g e)) m0 xs k = Some v \<Longrightarrow> P v"
proof (induction xs arbitrary: m0)
  case Nil
  then show ?case by simp
next
  case (Cons a xs)
  have "\<And>k v. (m0(f a \<mapsto> g a)) k = Some v \<Longrightarrow> P v"
    using Cons.prems(1,2) by (auto split: if_splits)
  then show ?case using Cons.IH [of "m0(f a \<mapsto> g a)"] Cons.prems(2,3) by auto
qed

lemma getDeltaRecords_entity:
  assumes "distinct (map Table_mobileName ENTITIES)" and "entity \<in> set ENTITIES"
    and "Table_mobileName entity \<noteq> ''user_clinic_permissions''"
    and "Table_mobileName entity \<noteq> ''app_config''"
  shows "getDeltaRecords Number envValue now ENTITIES db lastSyncedAt (Table_mobileName entity) =
           Some (entityDelta (tables db (Table_name entity)) lastSyncedAt
                   (lastSyncDate (getMaxHistoryDaysSync Number envValue) now lastSyncedAt
                      (Table_mobileName entity)))"
  using assms foldl_upd_lookup [OF assms(1,2)]
  by (simp add: getDeltaRecords_def Let_def)

subsection \<open>The history window\<close>

text \<open>
  Claim C6. A setting is valid when it is a non-empty value that \<open>Number\<close> reads as a
  positive integer \<open>days\<close>, and only then \<open>getMaxHistoryDaysSync\<close> returns the days.
  The change set of an entity holds the rows selected against an effective cutoff \<open>T\<close>:
  created are the undeleted rows with \<open>server_created_at\<close> after \<open>T\<close>, updated the
  undeleted rows modified after \<open>T\<close> and created before it, deleted (for a watermark
  other than 0) the rows deleted after \<open>T\<close>. With a valid setting \<open>T\<close> is the client's
  watermark \<open>w\<close> for an entity exempt from the history limit and the later of \<open>w\<close> and
  \<open>now - days\<close> for every other entity; with an absent or invalid setting it is \<open>w\<close>.
  The pull returns a change set in every case.
\<close>

theorem history_window_policy:
  assumes "distinct (map Table_mobileName ENTITIES)" and "entity \<in> set ENTITIES"
    and "Table_mobileName entity \<noteq> ''user_clinic_permissions''"
    and "Table_mobileName entity \<noteq> ''app_config''"
  shows "((getMaxHistoryDaysSync Number envValue = Some days) =
            (\<exists>s. envValue = Some s \<and> s \<noteq> [] \<and> Number s = Fin (of_int days) \<and> 0 < days)) \<and>
         getDeltaRecords Number envValue now ENTITIES db w (Table_mobileName entity) =
           (let T = (case getMaxHistoryDaysSync Number envValue of
                       None \<Rightarrow> w
                     | Some d \<Rightarrow> if Table_mobileName entity \<in> set EXEMPT_FROM_HISTORY_LIMIT then w
                                else max w (now - d * 86400000));
                rows = tables db (Table_name entity)
            in Some \<lparr>created = map Inl (filter (\<lambda>r. server_created_at r > 1000 * T
                                                     \<and> deleted_at r = None \<and> \<not> is_deleted r) rows),
                      updated = map Inl (filter (\<lambda>r. last_modified r > 1000 * T
                                                     \<and> server_created_at r < 1000 * T
                                                     \<and> deleted_at r = None \<and> \<not> is_deleted r) rows),
                      deleted = (if w = 0 then []
                                 else map id_col
                                        (filter (\<lambda>r. (case deleted_at r of None \<Rightarrow> False
                                                        | Some t \<Rightarrow> t > 1000 * T)
                                                       \<and> is_deleted r) rows))\<rparr>)"
proof
  show "(getMaxHistoryDaysSync Number envValue = Some days) =
          (\<exists>s. envValue = Some s \<and> s \<noteq> [] \<and> Number s = Fin (of_int days) \<and> 0 < days)"
  proof
    assume h: "getMaxHistoryDaysSync Number envValue = Some days"
    then obtain s where s: "envValue = Some s" "s \<noteq> []"
      by (auto simp: getMaxHistoryDaysSync_def split: option.splits if_splits)
    from h s obtain r where r: "Number s = Fin r" "\<not> r \<le> 0" "of_int \<lfloor>r\<rfloor> = r" "days = \<lfloor>r\<rfloor>"
      by (cases "Number s") (auto simp: getMaxHistoryDaysSync_def Let_def split: if_splits)
    then have "0 < days" by linarith
    with s r show "\<exists>s. envValue = Some s \<and> s \<noteq> [] \<and> Number s = Fin (of_int days) \<and> 0 < days"
      by auto
  next
    assume "\<exists>s. envValue = Some s \<and> s \<noteq> [] \<and> Number s = Fin (of_int days) \<and> 0 < days"
    then show "getMaxHistoryDaysSync Number envValue = Some days"
      by (auto simp: getMaxHistoryDaysSync_def Let_def)
  qed
  have T: "lastSyncDate (getMaxHistoryDaysSync Number envValue) now w (Table_mobileName entity) =
          (case getMaxHistoryDaysSync Number envValue of
             None \<Rightarrow> w
           | Some d \<Rightarrow> if Table_mobileName entity \<in> set EXEMPT_FROM_HISTORY_LIMIT then w
                      else max w (now - d * 86400000))"
    by (simp add: lastSyncDate_def effectiveLastSyncDate_def Let_def max_def split: option.splits)
  show "getDeltaRecords Number envValue now ENTITIES db w (Table_mobileName entity) =
           (let T = (case getMaxHistoryDaysSync Number envValue of
                       None \<Rightarrow> w
                     | Some d \<Rightarrow> if Table_mobileName entity \<in> set EXEMPT_FROM_HISTORY_LIMIT then w
                                else max w (now - d * 86400000));
                rows = tables db (Table_name entity)
            in Some \<lparr>created = map Inl (filter (\<lambda>r. server_created_at r > 1000 * T
                                                     \<and> deleted_at r = None \<and> \<not> is_deleted r) rows),
                      updated = map Inl (filter (\<lambda>r. last_modified r > 1000 * T
                                                     \<and> server_created_at r < 1000 * T
                                                     \<and> deleted_at r = None \<and> \<not> is_deleted r) rows),
                      deleted = (if w = 0 then []
                                 else map id_col
                                        (filter (\<lambda>r. (case deleted_at r of None \<Rightarrow> False
                                                        | Some t \<Rightarrow> t > 1000 * T)
                                                       \<and> is_deleted r) rows))\<rparr>)"
    unfolding getDeltaRecords_entity [OF assms, of Number envValue now db w] T entityDelta_def
      newRecords_def updatedRecords_def deletedRecords_def pg_of_date_def
    by (simp add: Let_def)
qed

lemma getMax_30: "getMaxHistoryDaysSync Number_30 (Some ''30'') = Some 30"
  by (simp add: getMaxHistoryDaysSync_def Number_30_def)

text \<open>
  The witness is the case of the claim, a limit of 30 days and a watermark 60 days old
  (the clock at day 100, the watermark at day 40). For \<open>visits\<close>, which is not exempt,
  the cutoff is day 70: the visit of day 80 is created, the visit of day 50 modified on day
  90 is updated. For \<open>clinics\<close>, which is exempt, the cutoff stays at day 40: the clinic
  of day 50 is created.
\<close>

theorem history_window_policy_witness:
  "distinct (map Table_mobileName [visits_entity, clinics_entity]) \<and>
   visits_entity \<in> set [visits_entity, clinics_entity] \<and>
   clinics_entity \<in> set [visits_entity, clinics_entity] \<and>
   getMaxHistoryDaysSync Number_30 (Some ''30'') = Some 30 \<and>
   getDeltaRecords Number_30 (Some ''30'') (100 * 86400000) [visits_entity, clinics_entity]
       window_database (40 * 86400000) ''visits'' =
     Some \<lparr>created = [Inl visit_day80], updated = [Inl visit_day50], deleted = []\<rparr> \<and>
   getDeltaRecords Number_30 (Some ''30'') (100 * 86400000) [visits_entity, clinics_entity]
       window_database (40 * 86400000) ''clinics'' =
     Some \<lparr>created = [Inl clinic_day50], updated = [], deleted = []\<rparr>"
proof -
  have d: "distinct (map Table_mobileName [visits_entity, clinics_entity])"
    by (simp add: visits_entity_def clinics_entity_def)
  have v: "visits_entity \<in> set [visits_entity, clinics_entity]"
    "Table_mobileName visits_entity \<noteq> ''user_clinic_permissions''"
    "Table_mobileName visits_entity \<noteq> ''app_config''"
    by (simp_all add: visits_entity_def)
  have c: "clinics_entity \<in> set [visits_entity, clinics_entity]"
    "Table_mobileName clinics_entity \<noteq> ''user_clinic_permissions''"
    "Table_mobileName clinics_entity \<noteq> ''app_config''"
    by (simp_all add: clinics_entity_def)
  have tv: "tables window_database (Table_name visits_entity) = [visit_day50, visit_day80]"
    and tc: "tables window_database (Table_name clinics_entity) = [clinic_day50]"
    by (simp_all add: window_database_def visits_entity_def clinics_entity_def)
  have nv: "Table_mobileName visits_entity = ''visits''"
    and nc: "Table_mobileName clinics_entity = ''clinics''"
    by (simp_all add: visits_entity_def clinics_entity_def)
  from history_window_policy [OF d v, of Number_30 "Some ''30''" 30 "100 * 86400000"
      window_database "40 * 86400000"]
  have 1: "getDeltaRecords Number_30 (Some ''30'') (100 * 86400000) [visits_entity, clinics_entity]
       window_database (40 * 86400000) ''visits'' =
     Some \<lparr>created = [Inl visit_day80], updated = [Inl visit_day50], deleted = []\<rparr>"
    unfolding tv getMax_30 nv
    by (simp add: Let_def EXEMPT_FROM_HISTORY_LIMIT_def visit_day50_def visit_day80_def)
  from history_window_policy [OF d c, of Number_30 "Some ''30''" 30 "100 * 86400000"
      window_database "40 * 86400000"]
  have 2: "getDeltaRecords Number_30 (Some ''30'') (100 * 86400000) [visits_entity, clinics_entity]
       window_database (40 * 86400000) ''clinics'' =
     Some \<lparr>created = [Inl clinic_day50], updated = [], deleted = []\<rparr>"
    unfolding tc getMax_30 nc
    by (simp add: Let_def EXEMPT_FROM_HISTORY_LIMIT_def clinic_day50_def)
  from 1 2 d v(1) c(1) show ?thesis by (simp add: getMax_30)
qed

subsection \<open>The bootstrap pull\<close>

text \<open>
  Claim C8. When \<open>lastSyncedAt\<close> is 0, the \<open>deleted\<close> list of every table key of the
  change set returned by \<open>getDeltaRecords\<close> is empty.
\<close>

theorem bootstrap_no_deletions:
  "getDeltaRecords Number envValue now ENTITIES db 0 k = Some d \<Longrightarrow> deleted d = []"
proof -
  assume h: "getDeltaRecords Number envValue now ENTITIES db 0 k = Some d"
  show ?thesis
  proof (cases "k = ''app_config'' \<or> k = ''user_clinic_permissions''")
    case True
    with h show ?thesis
      by (auto simp: getDeltaRecords_def Let_def plainDelta_def split: if_splits)
  next
    case False
    with h have "foldl (\<lambda>result entity.
                      result(Table_mobileName entity \<mapsto>
                        entityDelta (tables db (Table_name entity)) 0
                          (lastSyncDate (getMaxHistoryDaysSync Number envValue) now 0
                             (Table_mobileName entity))))
                    Map.empty ENTITIES k = Some d"
      by (simp add: getDeltaRecords_def Let_def)
    then show ?thesis
      by (rule foldl_upd_pred [rotated 2]) (simp_all add: entityDelta_def deletedRecords_def)
  qed
qed

theorem bootstrap_no_deletions_witness:
  "getDeltaRecords Number_30 None 1770647100000 [visits_entity] deleted_database 0 ''visits'' =
     Some (entityDelta (tables deleted_database ''visits'') 0 0) \<and>
   deleted (entityDelta (tables deleted_database ''visits'') 0 0 ::
              (unit sync_row_scheme + plain_row) DeltaData) = []"
proof -
  have h: "getDeltaRecords Number_30 None 1770647100000 [visits_entity] deleted_database 0 ''visits'' =
     Some (entityDelta (tables deleted_database ''visits'') 0 0)"
    by (simp add: getDeltaRecords_def Let_def visits_entity_def getMaxHistoryDaysSync_def
        lastSyncDate_def effectiveLastSyncDate_def)
  from bootstrap_no_deletions [OF h] h show ?thesis by simp
qed

subsection \<open>The tables outside the entity list\<close>

text \<open>
  Claim C10. Every change set has the keys \<open>user_clinic_permissions\<close> and
  \<open>app_config\<close>: \<open>created\<close> holds the rows with \<open>created_at\<close> after the client's
  watermark, \<open>updated\<close> the rows created before it and updated after it, whatever the
  history limit and the clock are, and \<open>deleted\<close> is empty at every watermark.
\<close>

theorem pull_plain_tables:
  "getDeltaRecords Number envValue now ENTITIES db w ''user_clinic_permissions'' =
     Some \<lparr>created = map Inr (filter (\<lambda>r. plain_created_at r > 1000 * w) (user_clinic_permissions db)),
           updated = map Inr (filter (\<lambda>r. plain_created_at r < 1000 * w \<and> plain_updated_at r > 1000 * w)
                               (user_clinic_permissions db)),
           deleted = []\<rparr> \<and>
   getDeltaRecords Number envValue now ENTITIES db w ''app_config'' =
     Some \<lparr>created = map Inr (filter (\<lambda>r. plain_created_at r > 1000 * w) (app_config db)),
           updated = map Inr (filter (\<lambda>r. plain_created_at r < 1000 * w \<and> plain_updated_at r > 1000 * w)
                               (app_config db)),
           deleted = []\<rparr>"
  by (simp add: getDeltaRecords_def Let_def plainDelta_def pg_of_date_def)

subsection \<open>The updated records\<close>

lemma created_updated_disjoint:
  "set (newRecords rows T) \<inter> set (updatedRecords rows T) = {}"
  by (auto simp: newRecords_def updatedRecords_def)

text \<open>
  Claim C7. The claim puts a row with \<open>server_created_at\<close> equal to the cutoff and
  \<open>last_modified\<close> after it into \<open>updated\<close>. The query compares
  \<open>server_created_at\<close> with \<open><\<close>, so at the cutoff 1770647055887 the row \<open>v1\<close>,
  created at that very instant and modified later, is in neither list.
\<close>

theorem updated_misses_row_created_at_cutoff:
  "getDeltaRecords Number_30 None 1770647100000 [visits_entity] boundary_database 1770647055887
      ''visits'' =
     Some \<lparr>created = [], updated = [], deleted = []\<rparr>"
  by (simp add: getDeltaRecords_def Let_def visits_entity_def getMaxHistoryDaysSync_def
      lastSyncDate_def effectiveLastSyncDate_def entityDelta_def newRecords_def updatedRecords_def
      deletedRecords_def boundary_database_def pg_of_date_def)

section \<open>Properties of the audit log\<close>

subsection \<open>Evaluation of the text functions\<close>

lemma string_of_nat_lt10: "n < 10 \<Longrightarrow> string_of_nat n = [digit_char n]"
  by (subst string_of_nat.simps) simp

lemma string_of_nat_ge10:
  "10 \<le> n \<Longrightarrow> string_of_nat n = string_of_nat (n div 10) @ [digit_char (n mod 10)]"
  by (subst string_of_nat.simps) simp

lemmas string_of_int_eval = string_of_int_def string_of_nat_lt10 string_of_nat_ge10 digit_char_def

lemma epoch_millis_pg_of_date: "epoch_millis (pg_of_date t) = t"
proof -
  have "(500 + 1000 * (- t)) div 1000 = - t" by simp
  then have "(500 - 1000 * t) div 1000 = - t" by simp
  then show ?thesis by (simp add: epoch_millis_def pg_of_date_def)
qed

subsection \<open>The row that logEvent inserts\<close>

text \<open>
  Claim C2. The claim says that the row inserted by \<open>logEvent\<close> has \<open>hash_verified\<close>
  null. \<open>logEvent\<close> inserts exactly one row, but its statement does not name
  \<open>hash_verified\<close>, and the column's default in the migration is \<open>false\<close>: the row
  has \<open>hash_verified = false\<close>, and the verification job, which selects
  \<open>hash_verified IS NULL\<close>, never takes it. (\<open>insertFromSync\<close> writes
  \<open>hash_verified: null\<close> explicitly.)
\<close>

theorem logEvent_hash_verified_false:
  "logEvent sha256 [] params ctx id' txId createdAt now =
     Inr [logEvent_row sha256 params ctx id' txId createdAt now] \<and>
   hash_verified (logEvent_row sha256 params ctx id' txId createdAt now) = Some False \<and>
   verifyHashes sha256 inet_text [logEvent_row sha256 params ctx id' txId createdAt now] =
     Inr ([logEvent_row sha256 params ctx id' txId createdAt now], \<lparr>verified = 0, failed = 0\<rparr>)"
  by (simp add: logEvent_def insert_event_log_def logEvent_row_def Let_def verifyHashes_def)

subsection \<open>The hash at write time and at verification\<close>

lemma scenario_changes_js:
  \<open>JSON_stringify (params_changes scenario_params) = ''{"surname":{"old":"Doe","new":"Smith"}}''\<close>
  by (simp add: scenario_params_def quote_def escape_char_def)

lemma scenario_changes_pg:
  \<open>jsonb_out (jsonb_in (params_changes scenario_params)) =
     ''{"surname": {"new": "Smith", "old": "Doe"}}''\<close>
  by (simp add: scenario_params_def quote_def escape_char_def key_le_def)

lemma scenario_createdAt: "string_of_int 1770647055887 = ''1770647055887''"
  by (simp add: string_of_int_eval)

lemma scenario_row_hash:
  "hash (scenario_row sha256) =
     sha256 (computeHash_payload ''019c42a1-7c4f-7000-8000-000000000001''
       ''019c42a1-7c4f-7000-8000-000000000002'' ''UPDATE'' ''patients'' ''p1''
       (JSON_stringify (params_changes scenario_params)) ''d1'' ''web'' ''u1'' None 1770647055887)"
  by (simp add: scenario_row_def logEvent_row_def Let_def computeHash_def scenario_ctx_def
      scenario_params_def)

lemma scenario_write_payload:
  \<open>computeHash_payload ''019c42a1-7c4f-7000-8000-000000000001''
       ''019c42a1-7c4f-7000-8000-000000000002'' ''UPDATE'' ''patients'' ''p1''
       (JSON_stringify (params_changes scenario_params)) ''d1'' ''web'' ''u1'' None 1770647055887 =
   ''019c42a1-7c4f-7000-8000-000000000001|019c42a1-7c4f-7000-8000-000000000002|UPDATE|patients|p1|{"surname":{"old":"Doe","new":"Smith"}}|d1|web|u1||1770647055887''\<close>
  unfolding computeHash_payload_def scenario_changes_js scenario_createdAt by simp

lemma scenario_verify_payload:
  \<open>verifyHashes_payload inet_text (scenario_row sha256) =
   ''019c42a1-7c4f-7000-8000-000000000001|019c42a1-7c4f-7000-8000-000000000002|UPDATE|patients|p1|{"surname": {"new": "Smith", "old": "Doe"}}|d1|web|u1||1770647055887''\<close>
proof -
  have "verifyHashes_payload inet_text (scenario_row sha256) =
     join ''|'' [''019c42a1-7c4f-7000-8000-000000000001'', ''019c42a1-7c4f-7000-8000-000000000002'',
       ''UPDATE'', ''patients'', ''p1'', jsonb_out (jsonb_in (params_changes scenario_params)),
       ''d1'', ''web'', ''u1'', [], string_of_int 1770647055887]"
    by (simp add: verifyHashes_payload_def scenario_row_def logEvent_row_def Let_def
        scenario_ctx_def epoch_millis_pg_of_date, simp add: scenario_params_def)
  then show ?thesis unfolding scenario_changes_pg scenario_createdAt by simp
qed

text \<open>
  Claim C1. The claim says that the hash recomputed by \<open>verifyHashes\<close> from the stored
  row equals the hash \<open>computeHash\<close> stored at write time. For the row of the logging
  scenario the two functions hash different strings: \<open>logEvent\<close> hashes the text of
  \<open>JSON.stringify\<close>, the query the text of the stored \<open>jsonb\<close> value, with its keys
  reordered and a space after each colon and comma. (Equal digests of the two strings would
  be a collision of SHA-256.)
\<close>

theorem write_and_verify_payloads_differ:
  \<open>hash (scenario_row sha256) =
     sha256 ''019c42a1-7c4f-7000-8000-000000000001|019c42a1-7c4f-7000-8000-000000000002|UPDATE|patients|p1|{"surname":{"old":"Doe","new":"Smith"}}|d1|web|u1||1770647055887'' \<and>
   computed_hash sha256 inet_text (scenario_row sha256) =
     sha256 ''019c42a1-7c4f-7000-8000-000000000001|019c42a1-7c4f-7000-8000-000000000002|UPDATE|patients|p1|{"surname": {"new": "Smith", "old": "Doe"}}|d1|web|u1||1770647055887'' \<and>
   verifyHashes_payload inet_text (scenario_row sha256) \<noteq>
     computeHash_payload ''019c42a1-7c4f-7000-8000-000000000001''
       ''019c42a1-7c4f-7000-8000-000000000002'' ''UPDATE'' ''patients'' ''p1''
       (JSON_stringify (params_changes scenario_params)) ''d1'' ''web'' ''u1'' None 1770647055887\<close>
  unfolding scenario_row_hash computed_hash_def scenario_write_payload scenario_verify_payload
  by simp

text \<open>
  The two hashes agree for a request with no IP address whose \<open>changes\<close> have the same
  text in both forms (the empty object, for one).
\<close>

lemma payloads_agree:
  "jsonb_out (jsonb_in (params_changes params)) = JSON_stringify (params_changes params) \<Longrightarrow>
   ipAddress ctx = None \<Longrightarrow>
   computed_hash sha256 inet_text (logEvent_row sha256 params ctx id' txId createdAt now) =
     hash (logEvent_row sha256 params ctx id' txId createdAt now)"
  by (simp add: logEvent_row_def Let_def computeHash_def computeHash_payload_def computed_hash_def
      verifyHashes_payload_def epoch_millis_pg_of_date)

subsection \<open>The immutability trigger\<close>

lemma delete_event_logs_row:
  "r \<in> set rows \<Longrightarrow> wh r \<Longrightarrow> delete_event_logs wh rows = Inl (AppendOnly TG_DELETE)"
  by (induction rows) (auto simp: prevent_event_log_mutation_def)

lemma delete_event_logs_rejected:
  "\<exists>r \<in> set rows. wh r \<Longrightarrow> delete_event_logs wh rows = Inl (AppendOnly TG_DELETE)"
  using delete_event_logs_row by blast

lemma update_trigger_rejects:
  "audit_fields new \<noteq> audit_fields old \<Longrightarrow>
     prevent_event_log_mutation TG_UPDATE old (Some new) = Inl (AppendOnly TG_UPDATE)"
  by (auto simp: prevent_event_log_mutation_def audit_fields_def)

lemma update_event_logs_rejected:
  "\<exists>r \<in> set rows. wh r \<and> audit_fields (st r) \<noteq> audit_fields r \<Longrightarrow>
     update_event_logs wh st rows = Inl (AppendOnly TG_UPDATE)"
proof (induction rows)
  case Nil
  then show ?case by simp
next
  case (Cons r rows)
  show ?case
  proof (cases "wh r \<and> audit_fields (st r) \<noteq> audit_fields r")
    case True
    then show ?thesis by (simp add: update_trigger_rejects)
  next
    case False
    with Cons.prems have "\<exists>r \<in> set rows. wh r \<and> audit_fields (st r) \<noteq> audit_fields r" by auto
    then have ih: "update_event_logs wh st rows = Inl (AppendOnly TG_UPDATE)" by (rule Cons.IH)
    have "prevent_event_log_mutation TG_UPDATE r (Some (st r)) = Inl (AppendOnly TG_UPDATE)
          \<or> prevent_event_log_mutation TG_UPDATE r (Some (st r)) = Inr (st r)"
      by (auto simp: prevent_event_log_mutation_def)
    then show ?thesis using ih by auto
  qed
qed

text \<open>
  Claim C3, as amended. An \<open>UPDATE\<close> of \<open>event_logs\<close> that changes one of the twelve
  audit columns of a row it touches is rejected; every \<open>DELETE\<close> that touches a row is
  rejected; an \<open>UPDATE\<close> that changes only \<open>hash_verified\<close> and the sync columns
  \<open>is_deleted\<close>, \<open>updated_at\<close>, \<open>last_modified\<close>, \<open>server_created_at\<close> and
  \<open>deleted_at\<close> is accepted, whatever the old and the new value of
  \<open>hash_verified\<close> are.
\<close>

theorem event_logs_append_only:
  "((\<exists>r \<in> set rows. wh r \<and> audit_fields (st r) \<noteq> audit_fields r) \<longrightarrow>
      update_event_logs wh st rows = Inl (AppendOnly TG_UPDATE)) \<and>
   ((\<exists>r \<in> set rows. wh r) \<longrightarrow> delete_event_logs wh rows = Inl (AppendOnly TG_DELETE)) \<and>
   prevent_event_log_mutation TG_DELETE OLD NEW' = Inl (AppendOnly TG_DELETE) \<and>
   prevent_event_log_mutation TG_UPDATE OLD
       (Some (OLD\<lparr>hash_verified := hv, is_deleted := d, updated_at := u, last_modified := l,
                  server_created_at := s, deleted_at := da\<rparr>)) =
     Inr (OLD\<lparr>hash_verified := hv, is_deleted := d, updated_at := u, last_modified := l,
              server_created_at := s, deleted_at := da\<rparr>)"
  using update_event_logs_rejected [of rows wh st] delete_event_logs_rejected [of rows wh]
  by (auto simp: prevent_event_log_mutation_def split: option.splits)

theorem event_logs_append_only_witness:
  "(\<exists>r \<in> set [scenario_row id]. True \<and>
       audit_fields (r\<lparr>row_id := ''p2''\<rparr>) \<noteq> audit_fields r) \<and>
   update_event_logs (\<lambda>r. True) (\<lambda>r. r\<lparr>row_id := ''p2''\<rparr>) [scenario_row id] =
     Inl (AppendOnly TG_UPDATE) \<and>
   (\<exists>r \<in> set [scenario_row id]. True) \<and>
   delete_event_logs (\<lambda>r. True) [scenario_row id] = Inl (AppendOnly TG_DELETE)"
proof -
  have h1: "\<exists>r \<in> set [scenario_row id]. True \<and>
       audit_fields (r\<lparr>row_id := ''p2''\<rparr>) \<noteq> audit_fields r"
    by (simp add: audit_fields_def scenario_row_def logEvent_row_def Let_def scenario_params_def)
  have h2: "\<exists>r \<in> set [scenario_row id]. True" by simp
  from event_logs_append_only [of "[scenario_row id]" "\<lambda>r. True" "\<lambda>r. r\<lparr>row_id := ''p2''\<rparr>"]
    h1 h2
  show ?thesis by blast
qed

text \<open>
  Claim C3, as stated, fails: the trigger accepts an \<open>UPDATE\<close> that changes
  \<open>is_deleted\<close>, a field other than \<open>hash_verified\<close>, and one that takes
  \<open>hash_verified\<close> from \<open>true\<close> back to null.
\<close>

theorem event_logs_update_accepted:
  "update_event_logs (\<lambda>r. True) (\<lambda>r. r\<lparr>is_deleted := True\<rparr>) [scenario_row id] =
     Inr [(scenario_row id)\<lparr>is_deleted := True\<rparr>] \<and>
   is_deleted (scenario_row id) = False \<and>
   update_event_logs (\<lambda>r. True) (\<lambda>r. r\<lparr>hash_verified := None\<rparr>)
       [(scenario_row id)\<lparr>hash_verified := Some True\<rparr>] =
     Inr [(scenario_row id)\<lparr>hash_verified := None\<rparr>]"
  by (simp add: prevent_event_log_mutation_def scenario_row_def logEvent_row_def Let_def)

section \<open>Properties of the push\<close>

subsection \<open>Evaluation of the date functions\<close>

lemmas civil_eval = day_of_era_def year_of_era_def day_of_year_def civil_month_def civil_day_def
  civil_year_def

lemmas date_eval = toISOString_def civil_eval pad2_def pad3_def pad4_def string_of_int_eval
  year_of_def safe_year_def epoch_date_def epoch_millis_of_def parse_iso_def iso_shape_def
  days_from_civil_def digits_value_def isDigit_def

lemma toISOString_test: "toISOString 1770647055887 = ''2026-02-09T14:24:15.887Z''"
  by (simp add: date_eval)

subsection \<open>The cleaned record\<close>

lemma cleaned_Nil: "cleaned tsd K [] = []"
  by (simp add: cleaned_def)

lemma cleaned_Cons:
  "cleaned tsd K ((k, v) # rcd) =
     (if k \<in> K
      then [(k, if isEpochTimestamp v then JStr (tsd v)
                else if (v = JNum (Fin 0) \<or> v = JStr ''0'') \<and> isDateColumn k then JNull
                else v)]
      else []) @ cleaned tsd K rcd"
  by (simp add: cleaned_def)

lemma cleaned_keys: "fst ` set (cleaned tsd K rcd) = fst ` set rcd \<inter> K"
proof (induction rcd)
  case Nil
  show ?case by (simp add: cleaned_Nil)
next
  case (Cons kv rcd)
  obtain k v where kv: "kv = (k, v)" by (cases kv)
  show ?case unfolding kv cleaned_Cons using Cons.IH by (cases "k \<in> K") auto
qed

lemma cleaned_map_of:
  "distinct (map fst rcd) \<Longrightarrow> (key, value) \<in> set rcd \<Longrightarrow>
   map_of (cleaned tsd K rcd) key =
     (if key \<in> K
      then Some (if isEpochTimestamp value then JStr (tsd value)
                 else if (value = JNum (Fin 0) \<or> value = JStr ''0'') \<and> isDateColumn key then JNull
                 else value)
      else None)"
proof (induction rcd)
  case Nil
  then show ?case by simp
next
  case (Cons kv rcd)
  obtain k v where kv: "kv = (k, v)" by (cases kv)
  show ?case
  proof (cases "k = key")
    case True
    from Cons.prems kv True have notin: "key \<notin> fst ` set rcd" by auto
    with Cons.prems kv True have v: "v = value" by (auto simp: image_iff)
    have "key \<notin> fst ` set (cleaned tsd K rcd)" using notin by (simp add: cleaned_keys)
    then have none: "map_of (cleaned tsd K rcd) key = None" by (simp add: map_of_eq_None_iff)
    show ?thesis unfolding kv cleaned_Cons True v using none by (cases "key \<in> K") simp_all
  next
    case False
    with Cons.prems kv have "(key, value) \<in> set rcd" "distinct (map fst rcd)" by auto
    from Cons.IH [OF this(2,1)] False show ?thesis
      unfolding kv cleaned_Cons by (cases "k \<in> K") simp_all
  qed
qed

lemma for_each_single: "for_each f [x] s = f x s"
  by (cases "f x s") (auto split: option.splits)

lemma pushTableNameModelMap_single: "pushTableNameModelMap [m] (Table_name m) = Own m"
  by (simp add: pushTableNameModelMap_def)

lemma single_record_push:
  "persistClientChanges tsd [m] [(Table_name m, \<lparr>created = [rcd], updated = [], deleted = []\<rparr>)] s =
     Sync_upsertFromDelta m (cleaned tsd (set (Table_columns m)) rcd) s"
proof -
  obtain s' e where r: "Sync_upsertFromDelta m (cleaned tsd (set (Table_columns m)) rcd) s = (s', e)"
    by (cases "Sync_upsertFromDelta m (cleaned tsd (set (Table_columns m)) rcd) s")
  have "persistTable tsd [m] (Table_name m, \<lparr>created = [rcd], updated = [], deleted = []\<rparr>) s = (s', e)"
    by (cases e) (simp_all add: persistTable_def pushTableNameModelMap_single for_each_single r)
  then show ?thesis by (cases e) (simp_all add: persistClientChanges_def for_each_single r)
qed

lemma isEpoch_code: "isEpochTimestamp (JStr ''1003755004'')"
  by (simp add: isEpochTimestamp_def trim_def isWhiteSpace_def isDigit_def)

lemma not_isEpoch_zero: "\<not> isEpochTimestamp (JNum (Fin 0)) \<and> \<not> isEpochTimestamp (JStr ''pp1'')"
  by (simp add: isEpochTimestamp_def trim_def isWhiteSpace_def isDigit_def)

lemma date_columns: "\<not> isDateColumn ''problem_code'' \<and> isDateColumn ''onset_date''"
  by (simp add: isDateColumn_def endsWith_def)

lemma tsd_code:
  "toSafeDateString_model 1770647100000 (JStr ''1003755004'') = ''2001-10-22T12:50:04.000Z''"
  by (simp add: toSafeDateString_model_def date_eval)

lemma isEpoch_millis: "isEpochTimestamp (JNum (Fin 1770647055887))"
  by (simp add: isEpochTimestamp_def)

lemma tsd_millis:
  "toSafeDateString_model 1770647100000 (JNum (Fin 1770647055887)) = ''2026-02-09T14:24:15.887Z''"
  by (simp add: toSafeDateString_model_def date_eval)

lemma cleaned_problem_record:
  "cleaned (toSafeDateString_model 1770647100000) (set PatientProblem_columns) problem_record =
     [(''id'', JStr ''pp1''), (''problem_code'', JStr ''2001-10-22T12:50:04.000Z''),
      (''onset_date'', JNull)]"
  unfolding problem_record_def cleaned_Cons cleaned_Nil
  by (simp add: isEpoch_code not_isEpoch_zero date_columns tsd_code PatientProblem_columns_def)

text \<open>
  Claim C5. The claim converts an epoch-like value to a date only under a date-like name
  and lets the values of other fields pass unchanged; the comment in the code says the
  conversion is there so that PostgreSQL can parse the timestamps, and the branch for
  \<open>0\<close> two lines below tests \<open>isDateColumn(key)\<close>. The conversion itself tests the
  value alone. A pushed problem whose \<open>problem_code\<close> is the string \<open>1003755004\<close>
  reaches \<open>upsertFromDelta\<close> of PatientProblem, which stores the field as it gets it,
  with a date string as its code: \<open>problem_code\<close> is not a date-like name. The
  bookkeeping field \<open>_status\<close> is stripped and the \<open>0\<close> under \<open>onset_date\<close> is null,
  as the claim says.
\<close>

theorem push_converts_text_column:
  "persistClientChanges (toSafeDateString_model 1770647100000)
       [PatientProblem upsertFromDelta deleteFromDelta]
       [(''patient_problems'', \<lparr>created = [problem_record], updated = [], deleted = []\<rparr>)] s =
     upsertFromDelta
       [(''id'', JStr ''pp1''), (''problem_code'', JStr ''2001-10-22T12:50:04.000Z''),
        (''onset_date'', JNull)] s \<and>
   field problem_record ''problem_code'' = JStr ''1003755004'' \<and>
   \<not> isDateColumn ''problem_code''"
proof -
  have a: "persistClientChanges (toSafeDateString_model 1770647100000)
       [PatientProblem upsertFromDelta deleteFromDelta]
       [(''patient_problems'', \<lparr>created = [problem_record], updated = [], deleted = []\<rparr>)] s =
     upsertFromDelta
       (cleaned (toSafeDateString_model 1770647100000) (set PatientProblem_columns) problem_record) s"
    using single_record_push [of "toSafeDateString_model 1770647100000"
      "PatientProblem upsertFromDelta deleteFromDelta" problem_record s]
    by (simp add: PatientProblem_def)
  have b: "field problem_record ''problem_code'' = JStr ''1003755004''"
    by (simp add: field_def problem_record_def)
  show ?thesis unfolding a cleaned_problem_record using b date_columns by simp
qed

subsection \<open>Applying a record twice\<close>


lemma Visit_values_id [simp]: "id_col (Visit_values tsd sjp tz now visit i) = i"
  by (simp add: Visit_values_def)

lemma Visit_values_clock:
  "\<not> truthy (field visit ''check_in_timestamp'')
     \<or> tsd t2 (field visit ''check_in_timestamp'') = tsd t1 (field visit ''check_in_timestamp'') \<Longrightarrow>
   cols (Visit_values tsd sjp tz t2 visit i) = cols (Visit_values tsd sjp tz t1 visit i) \<and>
   is_deleted (Visit_values tsd sjp tz t2 visit i) = is_deleted (Visit_values tsd sjp tz t1 visit i)"
  by (auto simp: Visit_values_def)

lemma id_col_map:
  "(\<And>r. id_col (f r) = id_col r) \<Longrightarrow> id_col ` set (map f rows) = id_col ` set rows"
  by (induction rows) auto

lemma Visit_upsert_idempotent:
  assumes "\<not> truthy (field visit ''check_in_timestamp'')
     \<or> tsd t2 (field visit ''check_in_timestamp'') = tsd t1 (field visit ''check_in_timestamp'')"
  shows "unstamped (fst (Visit_upsert_core tsd sjp tz t2 visit
                           (fst (Visit_upsert_core tsd sjp tz t1 visit db)))) =
         unstamped (fst (Visit_upsert_core tsd sjp tz t1 visit db))"
proof (cases "field visit ''id''")
  case (JStr i)
  have v: "cols (Visit_values tsd sjp tz t2 visit i) = cols (Visit_values tsd sjp tz t1 visit i) \<and>
     is_deleted (Visit_values tsd sjp tz t2 visit i) = is_deleted (Visit_values tsd sjp tz t1 visit i)"
    using assms by (rule Visit_values_clock)
  show ?thesis
  proof (cases "i \<in> id_col ` set (tables db ''visits'')")
    case True
    then have "i \<in> id_col ` set (map (\<lambda>r. if id_col r = i
                                then r\<lparr>cols := cols (Visit_values tsd sjp tz t1 visit i),
                                       is_deleted := is_deleted (Visit_values tsd sjp tz t1 visit i),
                                       updated_at := pg_of_date t1,
                                       last_modified := pg_of_date t1\<rparr>
                                else r) (tables db ''visits''))"
      by (subst id_col_map) simp_all
    with True JStr v show ?thesis
      by (auto simp: Visit_upsert_core_def Let_def unstamped_def fun_eq_iff)
  next
    case False
    then have same: "\<And>g. map (\<lambda>r. if id_col r = i then g r else r) (tables db ''visits'') =
        tables db ''visits''"
      by (intro map_idI) auto
    from False JStr v show ?thesis
      by (auto simp: Visit_upsert_core_def Let_def unstamped_def fun_eq_iff same)
  qed
qed (simp_all add: Visit_upsert_core_def)

lemma mark_deleted_twice:
  "(\<And>r. wh (r\<lparr>is_deleted := True, updated_at := pg_of_date t1, last_modified := pg_of_date t1\<rparr>) = wh r) \<Longrightarrow>
   map (\<lambda>r. r\<lparr>updated_at := 0, last_modified := 0\<rparr>) (mark_deleted t2 wh (mark_deleted t1 wh rows)) =
   map (\<lambda>r. r\<lparr>updated_at := 0, last_modified := 0\<rparr>) (mark_deleted t1 wh rows)"
  by (induction rows) (auto simp: mark_deleted_def)

lemma Visit_softDelete_idempotent:
  "unstamped (fst (Visit_softDelete t2 i (fst (Visit_softDelete t1 i db)))) =
   unstamped (fst (Visit_softDelete t1 i db))"
  by (simp add: Visit_softDelete_def unstamped_def fun_eq_iff mark_deleted_twice)


subsection \<open>The push of one visit\<close>


lemma safe_year_sample: "safe_year 1770647055887"
  by (simp add: date_eval)


lemma tsd_millis_sample:
  "toSafeDateString_model now (JNum (Fin 1770647055887)) = ''2026-02-09T14:24:15.887Z''"
  by (simp add: toSafeDateString_model_def epoch_date_def epoch_millis_of_def safe_year_sample
      toISOString_test)


lemma isEpoch_samples:
  "\<not> isEpochTimestamp (JStr ''v1'')" "\<not> isEpochTimestamp (JStr ''p1'')"
  "\<not> isEpochTimestamp (JStr ''c1'')" "\<not> isEpochTimestamp (JStr ''u1'')"
  "\<not> isEpochTimestamp (JStr ''Dr A'')" "\<not> isEpochTimestamp (JStr ''2026-02-09T14:24:15.887Z'')"
  "\<not> isEpochTimestamp (JObj [])" "\<not> isEpochTimestamp (JBool False)"
  by (simp_all add: isEpochTimestamp_def trim_def isWhiteSpace_def isDigit_def)

lemma cleaned_visit_record:
  "cleaned (toSafeDateString_model now) (set Visit_columns) visit_record = clean_visit_record"
  unfolding visit_record_def cleaned_Cons cleaned_Nil
  by (simp add: isEpoch_samples isEpoch_millis tsd_millis_sample Visit_columns_def
      clean_visit_record_def)

lemma push_at_visit:
  "push_at now visit_push db =
     Visit_upsert_core toSafeDateString_model safeJSONParse_model timestamptz_model now
       clean_visit_record db"
  using single_record_push [of "toSafeDateString_model now" "Visit_at now" visit_record db]
  by (simp add: push_at_def visit_push_def Visit_at_def Visit_def cleaned_visit_record)


lemma first_push:
  "push_at 1770647100000 visit_push empty_server_db =
     (empty_server_db\<lparr>tables := (\<lambda>t. [])(''visits'' :=
        [Visit_values toSafeDateString_model safeJSONParse_model timestamptz_model 1770647100000
           clean_visit_record ''v1''])\<rparr>, None)"
  by (simp add: push_at_visit Visit_upsert_core_def Let_def field_def clean_visit_record_def
      empty_server_db_def)


subsection \<open>Tables the push does not know\<close>

lemma persistClientChanges_Cons:
  "persistClientChanges tsd E (x # xs) s =
     (case persistTable tsd E x s of
        (s', None) \<Rightarrow> persistClientChanges tsd E xs s'
      | (s', Some e) \<Rightarrow> (s', Some e))"
  unfolding persistClientChanges_def by simp

text \<open>
  A table for which the map has nothing, own or inherited, is skipped: the request is
  processed as if the entry were not there.
\<close>

lemma unknown_table_skipped:
  "pushTableNameModelMap E t = Undefined \<Longrightarrow>
   persistClientChanges tsd E (xs @ (t, d) # ys) s = persistClientChanges tsd E (xs @ ys) s"
proof (induction xs arbitrary: s)
  case Nil
  then show ?case by (simp add: persistClientChanges_Cons persistTable_def)
next
  case (Cons x xs)
  then show ?case
    by (cases "persistTable tsd E x s") (auto simp: persistClientChanges_Cons split: option.splits)
qed

text \<open>
  Claim C9. The claim says that a table name outside the push catalog causes no write and
  no exception, and that the other tables of the request are processed. That is what
  happens for \<open>foo_bar\<close>: the visit of the request is written. For the table name
  \<open>constructor\<close>, which is not in the catalog either, the lookup finds the property
  the map inherits from \<open>Object.prototype\<close>, the test \<open>!pushTableNameModelMap[tableName]\<close>
  does not skip it, and \<open>.Table.columns\<close> throws: the visit of the request is not
  written.
\<close>

theorem inherited_table_name_throws:
  "push_at 1770647100000 ((''foo_bar'', \<lparr>created = [], updated = [], deleted = []\<rparr>) # visit_push)
       empty_server_db =
     push_at 1770647100000 visit_push empty_server_db \<and>
   snd (push_at 1770647100000 visit_push empty_server_db) = None \<and>
   map id_col (tables (fst (push_at 1770647100000 visit_push empty_server_db)) ''visits'') = [''v1''] \<and>
   push_at 1770647100000 ((''constructor'', \<lparr>created = [], updated = [], deleted = []\<rparr>) # visit_push)
       empty_server_db =
     (empty_server_db, Some (TypeError ''Cannot read properties of undefined''))"
proof -
  have a: "pushTableNameModelMap [Visit_at 1770647100000] ''foo_bar'' = Undefined"
    by (simp add: pushTableNameModelMap_def Visit_at_def Visit_def Object_prototype_properties_def)
  have b: "pushTableNameModelMap [Visit_at 1770647100000] ''constructor'' = Inherited"
    by (simp add: pushTableNameModelMap_def Visit_at_def Visit_def Object_prototype_properties_def)
  have "push_at 1770647100000
          ((''foo_bar'', \<lparr>created = [], updated = [], deleted = []\<rparr>) # visit_push) empty_server_db =
        push_at 1770647100000 visit_push empty_server_db"
    using unknown_table_skipped [OF a, of "toSafeDateString_model 1770647100000" "[]" _ visit_push]
    by (simp add: push_at_def)
  moreover have "push_at 1770647100000
          ((''constructor'', \<lparr>created = [], updated = [], deleted = []\<rparr>) # visit_push)
          empty_server_db =
        (empty_server_db, Some (TypeError ''Cannot read properties of undefined''))"
    by (simp add: push_at_def persistClientChanges_Cons persistTable_def b)
  ultimately show ?thesis by (simp add: first_push)
qed

section \<open>The retried push\<close>

subsection \<open>The adapters of Visit as operations\<close>







subsection \<open>One row under a list of operations\<close>

lemma refers_visits: "\<not> refers ''visits'' i x"
  by (simp add: refers_def)




lemma rowfun_cols_other:
  "tb \<noteq> ''visits'' \<Longrightarrow> cols (rowfun vals stamp op tb x) = cols x"
  by (simp add: rowfun_def split: push_op.splits jsval.splits)


lemma row_ops_Nil: "row_ops vals stamp [] tb x = x"
  by (simp add: row_ops_def)

lemma row_ops_Cons:
  "row_ops vals stamp (op # ops) tb x = row_ops vals stamp ops tb (rowfun vals stamp op tb x)"
  by (simp add: row_ops_def)



lemma row_ops_cols_other:
  "tb \<noteq> ''visits'' \<Longrightarrow> cols (row_ops vals stamp ops tb x) = cols x"
  by (induction ops arbitrary: x) (simp_all add: row_ops_Nil row_ops_Cons rowfun_cols_other)








subsection \<open>The tables under a list of operations\<close>

















subsection \<open>The push as a list of operations\<close>
















end
